theory Spec2Isabelle
  imports Main "HOL-Library.Word"
begin

section \<open>Stale-attachment check of the doctor package\<close>

text \<open>
  A shallow embedding of \<^verbatim>\<open>internal/doctor/stale_check.go\<close>. The functions of that file
  (\<^verbatim>\<open>Run\<close>, \<^verbatim>\<open>checkRig\<close>, \<^verbatim>\<open>checkBeadsDir\<close>, \<^verbatim>\<open>checkBeadsDirWithContext\<close>,
  \<^verbatim>\<open>parseTimestamp\<close>) are translated statement by statement. What they call outside the
  file (the clock, \<^verbatim>\<open>time.Parse\<close>, \<^verbatim>\<open>path/filepath\<close>, the beads client, \<^verbatim>\<open>discoverRigs\<close>,
  \<^verbatim>\<open>formatDuration\<close>) is a field of the record \<open>world\<close>, so every theorem holds for
  every behaviour of these collaborators.
\<close>

subsection \<open>Instants and durations\<close>

text \<open>
  A \<^verbatim>\<open>time.Time\<close> is an instant, counted in nanoseconds from the zero value
  \<^verbatim>\<open>time.Time{}\<close>. Go keeps 64-bit seconds for it, far more than any clock reading, parsed
  year (0000 to 9999) or cutoff reaches, so instants are unbounded integers here.
  A \<^verbatim>\<open>time.Duration\<close> is an \<^verbatim>\<open>int64\<close> of nanoseconds: its \<open>+\<close> and unary \<open>-\<close> wrap around,
  and \<^verbatim>\<open>Time.Sub\<close> (hence \<^verbatim>\<open>time.Since\<close>) returns the largest or smallest duration when
  the difference of the instants does not fit.
\<close>

type_synonym Time = int
type_synonym Duration = "64 word"

definition zeroTime :: Time where
  "zeroTime = 0"

definition maxDuration :: Duration where
  "maxDuration = word_of_int (2 ^ 63 - 1)"

definition minDuration :: Duration where
  "minDuration = word_of_int (- (2 ^ 63))"

definition Hour :: Duration where
  "Hour = 3600000000000"

definition time_Add :: "Time \<Rightarrow> Duration \<Rightarrow> Time" where
  "time_Add t d = t + sint d"

definition time_Sub :: "Time \<Rightarrow> Time \<Rightarrow> Duration" where
  "time_Sub t u =
     (if t - u > 2 ^ 63 - 1 then maxDuration
      else if t - u < - (2 ^ 63) then minDuration
      else word_of_int (t - u))"

definition time_Before :: "Time \<Rightarrow> Time \<Rightarrow> bool" where
  "time_Before t u \<longleftrightarrow> t < u"

subsection \<open>Data\<close>

text \<open>
  A Go \<^verbatim>\<open>error\<close> is the text that its \<^verbatim>\<open>Error()\<close> method returns.
\<close>

datatype error = Error string

fun Error_text :: "error \<Rightarrow> string" where
  "Error_text (Error s) = s"

text \<open>
  The types that the file takes from elsewhere (\<^verbatim>\<open>beads.Issue\<close>, \<^verbatim>\<open>beads.AttachmentFields\<close>,
  \<^verbatim>\<open>beads.ListOptions\<close>, \<^verbatim>\<open>CheckResult\<close>, \<^verbatim>\<open>CheckContext\<close>, \<^verbatim>\<open>BaseCheck\<close>) are records of the
  fields that the file reads or writes. The fields of all records share one name space
  here, so four fields carry the name of their record: \<^verbatim>\<open>Assignee\<close> of a \<^verbatim>\<open>StaleAttachment\<close>
  is \<open>StaleAssignee\<close>, \<^verbatim>\<open>Name\<close> and \<^verbatim>\<open>Status\<close> of a \<^verbatim>\<open>CheckResult\<close> are \<open>ResultName\<close> and
  \<open>ResultStatus\<close>, \<^verbatim>\<open>Status\<close> and \<^verbatim>\<open>Priority\<close> of the \<^verbatim>\<open>ListOptions\<close> are \<open>ListStatus\<close> and
  \<open>ListPriority\<close>.
\<close>

record Issue =
  ID :: string
  Title :: string
  Assignee :: string
  Status :: string
  UpdatedAt :: string

record AttachmentFields =
  AttachedMolecule :: string

record ListOptions =
  ListStatus :: string
  ListPriority :: int

text \<open>
  Modelled from the spec: the constant \<^verbatim>\<open>beads.StatusPinned\<close> is declared outside the file;
  the spec has the anchors as the records with status \<^verbatim>\<open>pinned\<close>.
\<close>

definition StatusPinned :: string where
  "StatusPinned = ''pinned''"

record StaleAttachment =
  Rig :: string
  PinnedBeadID :: string
  PinnedTitle :: string
  StaleAssignee :: string
  MoleculeID :: string
  MoleculeTitle :: string
  LastUpdated :: Time
  StaleDuration :: Duration

datatype CheckStatus = StatusOK | StatusWarning | StatusError

record CheckResult =
  ResultName :: string
  ResultStatus :: CheckStatus
  Message :: string
  Details :: "string list"
  FixHint :: string

record CheckContext =
  TownRoot :: string
  RigName :: string

record BaseCheck =
  CheckName :: string
  CheckDescription :: string

record StaleAttachmentsCheck = BaseCheck +
  Threshold :: Duration

text \<open>
  Modelled from the spec: \<^verbatim>\<open>BaseCheck.Name()\<close> is declared outside the file; the spec gives
  \<^verbatim>\<open>Name() \<rightarrow> string\<close>, the constant identifier of the check, which the constructor stores
  in \<^verbatim>\<open>CheckName\<close>.
\<close>

definition Name :: "StaleAttachmentsCheck \<Rightarrow> string" where
  "Name c = CheckName c"

definition DefaultStaleThreshold :: Duration where
  "DefaultStaleThreshold = 1 * Hour"

definition NewStaleAttachmentsCheckWithThreshold :: "Duration \<Rightarrow> StaleAttachmentsCheck" where
  "NewStaleAttachmentsCheckWithThreshold threshold =
     \<lparr>CheckName = ''stale-attachments'',
      CheckDescription = ''Check for attached molecules that haven't been updated in too long'',
      Threshold = threshold\<rparr>"

definition NewStaleAttachmentsCheck :: StaleAttachmentsCheck where
  "NewStaleAttachmentsCheck = NewStaleAttachmentsCheckWithThreshold DefaultStaleThreshold"

subsection \<open>The collaborators\<close>

text \<open>
  \<open>clock w k\<close> is what the reading number \<open>k\<close> of the clock returns during one run,
  counted from 0; the number of readings made so far is threaded through the functions
  below, so that \<^verbatim>\<open>time.Now\<close> and \<^verbatim>\<open>time.Since\<close> read the clock anew at each call. The wall
  clock and the monotonic clock of Go are one clock here. A call that returns
  \<^verbatim>\<open>(value, error)\<close> in Go is a sum here, \<open>Inl\<close> the error. The beads client made by
  \<^verbatim>\<open>beads.New(dir)\<close> is identified by \<open>dir\<close>, the first argument of \<open>beads_List\<close> and
  \<open>beads_Show\<close>; the stores and the file system do not change during a run.
\<close>

record world =
  clock :: "nat \<Rightarrow> Time"
  time_Parse :: "string \<Rightarrow> string \<Rightarrow> error + Time"
  filepath_Join :: "string list \<Rightarrow> string"
  filepath_Dir :: "string \<Rightarrow> string"
  filepath_Base :: "string \<Rightarrow> string"
  filepath_Glob :: "string \<Rightarrow> error + string list"
  discoverRigs :: "string \<Rightarrow> error + string list"
  beads_List :: "string \<Rightarrow> ListOptions \<Rightarrow> error + Issue list"
  beads_Show :: "string \<Rightarrow> string \<Rightarrow> error + Issue"
  ParseAttachmentFields :: "Issue \<Rightarrow> AttachmentFields option"
  formatDuration :: "Duration \<Rightarrow> string"

definition time_Now :: "world \<Rightarrow> nat \<Rightarrow> Time \<times> nat" where
  "time_Now w n = (clock w n, Suc n)"

definition time_Since :: "world \<Rightarrow> Time \<Rightarrow> nat \<Rightarrow> Duration \<times> nat" where
  "time_Since w t n = (case time_Now w n of (now, n') \<Rightarrow> (time_Sub now t, n'))"

subsection \<open>parseTimestamp\<close>

definition RFC3339 :: string where
  "RFC3339 = ''2006-01-02T15:04:05Z07:00''"

definition parseTimestamp :: "world \<Rightarrow> string \<Rightarrow> Time \<times> error option" where
  "parseTimestamp w ts =
     (case time_Parse w RFC3339 ts of
        Inr t \<Rightarrow> (t, None)
      | Inl _ \<Rightarrow>
          (case time_Parse w ''2006-01-02T15:04:05'' ts of
             Inr t \<Rightarrow> (t, None)
           | Inl _ \<Rightarrow>
               (case time_Parse w ''2006-01-02'' ts of
                  Inr t \<Rightarrow> (t, None)
                | Inl _ \<Rightarrow> (zeroTime, Some (Error (''unable to parse timestamp: '' @ ts))))))"

subsection \<open>checkBeadsDirWithContext\<close>

text \<open>
  The accumulator of the loop over the pinned issues: the findings appended so far, the
  counter \<^verbatim>\<open>checked\<close>, and the number of clock readings made.
\<close>

type_synonym scan = "StaleAttachment list \<times> nat \<times> nat"

text \<open>One iteration of the loop of \<^verbatim>\<open>checkBeadsDirWithContext\<close>, for the issue \<open>pinned\<close>.\<close>

definition checkPinned ::
  "StaleAttachmentsCheck \<Rightarrow> world \<Rightarrow> string \<Rightarrow> Time \<Rightarrow> string \<Rightarrow> Issue \<Rightarrow> scan \<Rightarrow> scan" where
  "checkPinned c w parentDir cutoff rigName pinned acc =
     (case acc of (staleAttachments, checked, n) \<Rightarrow>
       (case ParseAttachmentFields w pinned of
          None \<Rightarrow> acc
        | Some attachment \<Rightarrow>
            if AttachedMolecule attachment = [] then acc
            else
              (case beads_Show w parentDir (AttachedMolecule attachment) of
                 Inl _ \<Rightarrow>
                   (case time_Since w cutoff n of (since, n') \<Rightarrow>
                     (staleAttachments @
                        [\<lparr>Rig = rigName,
                          PinnedBeadID = ID pinned,
                          PinnedTitle = Title pinned,
                          StaleAssignee = Assignee pinned,
                          MoleculeID = AttachedMolecule attachment,
                          MoleculeTitle = ''(molecule not found)'',
                          LastUpdated = zeroTime,
                          StaleDuration = since + Threshold c\<rparr>],
                      checked + 1, n'))
               | Inr mol \<Rightarrow>
                   (case parseTimestamp w (UpdatedAt mol) of
                      (_, Some _) \<Rightarrow> (staleAttachments, checked + 1, n)
                    | (updatedAt, None) \<Rightarrow>
                        if Status mol = ''in_progress'' \<and> time_Before updatedAt cutoff then
                          (case time_Since w updatedAt n of (since, n') \<Rightarrow>
                            (staleAttachments @
                               [\<lparr>Rig = rigName,
                                 PinnedBeadID = ID pinned,
                                 PinnedTitle = Title pinned,
                                 StaleAssignee = Assignee pinned,
                                 MoleculeID = ID mol,
                                 MoleculeTitle = Title mol,
                                 LastUpdated = updatedAt,
                                 StaleDuration = since\<rparr>],
                             checked + 1, n'))
                        else (staleAttachments, checked + 1, n)))))"

fun pinnedLoop ::
  "StaleAttachmentsCheck \<Rightarrow> world \<Rightarrow> string \<Rightarrow> Time \<Rightarrow> string \<Rightarrow> Issue list \<Rightarrow> scan \<Rightarrow> scan" where
  "pinnedLoop c w parentDir cutoff rigName [] acc = acc"
| "pinnedLoop c w parentDir cutoff rigName (pinned # rest) acc =
     pinnedLoop c w parentDir cutoff rigName rest (checkPinned c w parentDir cutoff rigName pinned acc)"

text \<open>
  The result is Go's triple \<^verbatim>\<open>([]StaleAttachment, int, error)\<close>, with the number of clock
  readings after the call. The parameters \<open>workDir\<close> and \<open>workerName\<close> are not used by the
  body, as in the source.
\<close>

definition checkBeadsDirWithContext ::
  "StaleAttachmentsCheck \<Rightarrow> world \<Rightarrow> string \<Rightarrow> string \<Rightarrow> Time \<Rightarrow> string \<Rightarrow> string \<Rightarrow> nat
     \<Rightarrow> (StaleAttachment list \<times> nat \<times> error option) \<times> nat" where
  "checkBeadsDirWithContext c w workDir beadsDir cutoff rigName workerName n =
     (let parentDir = filepath_Dir w beadsDir in
      case beads_List w parentDir \<lparr>ListStatus = StatusPinned, ListPriority = - 1\<rparr> of
        Inl err \<Rightarrow> (([], 0, Some err), n)
      | Inr pinnedIssues \<Rightarrow>
          (case pinnedLoop c w parentDir cutoff rigName pinnedIssues ([], 0, n) of
             (staleAttachments, checked, n') \<Rightarrow> ((staleAttachments, checked, None), n')))"

definition checkBeadsDir ::
  "StaleAttachmentsCheck \<Rightarrow> world \<Rightarrow> string \<Rightarrow> string \<Rightarrow> Time \<Rightarrow> nat
     \<Rightarrow> (StaleAttachment list \<times> nat \<times> error option) \<times> nat" where
  "checkBeadsDir c w townRoot beadsDir cutoff n =
     checkBeadsDirWithContext c w townRoot beadsDir cutoff [] [] n"

subsection \<open>checkRig\<close>

text \<open>
  One iteration of a loop of \<^verbatim>\<open>checkRig\<close> over the matched store paths. The two loops of
  the source differ only in the worker label they pass: the directory name for a polecat,
  the directory name after \<^verbatim>\<open>crew/\<close> for a crew worker; \<open>label\<close> is that difference.
\<close>

definition checkStore ::
  "StaleAttachmentsCheck \<Rightarrow> world \<Rightarrow> string \<Rightarrow> Time \<Rightarrow> string \<Rightarrow> (string \<Rightarrow> string)
     \<Rightarrow> string \<Rightarrow> scan \<Rightarrow> scan" where
  "checkStore c w rigPath cutoff rigName label beadsPath acc =
     (case acc of (allStale, totalChecked, n) \<Rightarrow>
       (let workerPath = filepath_Dir w beadsPath;
            workerName = filepath_Base w workerPath
        in case checkBeadsDirWithContext c w rigPath beadsPath cutoff rigName (label workerName) n of
             ((stale, checked, Some _), n') \<Rightarrow> (allStale, totalChecked, n')
           | ((stale, checked, None), n') \<Rightarrow> (allStale @ stale, totalChecked + checked, n')))"

fun storeLoop ::
  "StaleAttachmentsCheck \<Rightarrow> world \<Rightarrow> string \<Rightarrow> Time \<Rightarrow> string \<Rightarrow> (string \<Rightarrow> string)
     \<Rightarrow> string list \<Rightarrow> scan \<Rightarrow> scan" where
  "storeLoop c w rigPath cutoff rigName label [] acc = acc"
| "storeLoop c w rigPath cutoff rigName label (beadsPath # rest) acc =
     storeLoop c w rigPath cutoff rigName label rest
       (checkStore c w rigPath cutoff rigName label beadsPath acc)"

text \<open>The worker name that each of the two loops passes on.\<close>

definition polecatLabel :: "string \<Rightarrow> string" where
  "polecatLabel polecatName = polecatName"

definition crewLabel :: "string \<Rightarrow> string" where
  "crewLabel workerName = ''crew/'' @ workerName"

definition polecatsPattern :: "world \<Rightarrow> string \<Rightarrow> string \<Rightarrow> string" where
  "polecatsPattern w townRoot rigName =
     (let rigPath = filepath_Join w [townRoot, rigName];
          polecatsDir = filepath_Join w [rigPath, ''polecats'']
      in filepath_Join w [polecatsDir, ''*'', ''.beads''])"

definition crewPattern :: "world \<Rightarrow> string \<Rightarrow> string \<Rightarrow> string" where
  "crewPattern w townRoot rigName =
     (let rigPath = filepath_Join w [townRoot, rigName];
          crewDir = filepath_Join w [rigPath, ''crew'']
      in filepath_Join w [crewDir, ''*'', ''.beads''])"

definition checkRig ::
  "StaleAttachmentsCheck \<Rightarrow> world \<Rightarrow> string \<Rightarrow> string \<Rightarrow> Time \<Rightarrow> nat
     \<Rightarrow> (StaleAttachment list \<times> nat \<times> error option) \<times> nat" where
  "checkRig c w townRoot rigName cutoff n =
     (let rigPath = filepath_Join w [townRoot, rigName] in
      case filepath_Glob w (polecatsPattern w townRoot rigName) of
        Inl err \<Rightarrow> (([], 0, Some err), n)
      | Inr polecatDirs \<Rightarrow>
          (let acc = storeLoop c w rigPath cutoff rigName polecatLabel polecatDirs ([], 0, n)
           in case (case filepath_Glob w (crewPattern w townRoot rigName) of
                      Inr crewDirs \<Rightarrow>
                        storeLoop c w rigPath cutoff rigName crewLabel crewDirs acc
                    | Inl _ \<Rightarrow> acc) of
                (allStale, totalChecked, n') \<Rightarrow> ((allStale, totalChecked, None), n')))"

subsection \<open>Run\<close>

text \<open>One iteration of the loop of \<^verbatim>\<open>Run\<close> over the rigs.\<close>

definition checkRigStep ::
  "StaleAttachmentsCheck \<Rightarrow> world \<Rightarrow> string \<Rightarrow> Time \<Rightarrow> string \<Rightarrow> scan \<Rightarrow> scan" where
  "checkRigStep c w townRoot cutoff rigName acc =
     (case acc of (staleAttachments, checkedCount, n) \<Rightarrow>
       (case checkRig c w townRoot rigName cutoff n of
          ((stale, checked, Some _), n') \<Rightarrow> (staleAttachments, checkedCount, n')
        | ((stale, checked, None), n') \<Rightarrow>
            (staleAttachments @ stale, checkedCount + checked, n')))"

fun rigLoop ::
  "StaleAttachmentsCheck \<Rightarrow> world \<Rightarrow> string \<Rightarrow> Time \<Rightarrow> string list \<Rightarrow> scan \<Rightarrow> scan" where
  "rigLoop c w townRoot cutoff [] acc = acc"
| "rigLoop c w townRoot cutoff (rigName # rest) acc =
     rigLoop c w townRoot cutoff rest (checkRigStep c w townRoot cutoff rigName acc)"

text \<open>The town-level store, scanned after the rigs.\<close>

definition checkTown ::
  "StaleAttachmentsCheck \<Rightarrow> world \<Rightarrow> string \<Rightarrow> Time \<Rightarrow> scan \<Rightarrow> scan" where
  "checkTown c w townRoot cutoff acc =
     (case acc of (staleAttachments, checkedCount, n) \<Rightarrow>
       (case checkBeadsDir c w townRoot (filepath_Join w [townRoot, ''.beads'']) cutoff n of
          ((townStale, townChecked, None), n') \<Rightarrow>
            (staleAttachments @ townStale, checkedCount + townChecked, n')
        | ((townStale, townChecked, Some _), n') \<Rightarrow> (staleAttachments, checkedCount, n')))"

text \<open>\<^verbatim>\<open>%d\<close> of \<^verbatim>\<open>fmt.Sprintf\<close>, for a count.\<close>

fun fmt_d :: "nat \<Rightarrow> string" where
  "fmt_d n = (if n < 10 then [''0123456789'' ! n]
              else fmt_d (n div 10) @ [''0123456789'' ! (n mod 10)])"

declare fmt_d.simps [simp del]

text \<open>
  What stands between the two titles in the format string of the detail line: the eight
  bytes that the source file has there. They are the UTF-8 encoding of the three
  characters U+00E2, U+2020, U+2019, which is what the three bytes E2 86 92 of a rightwards
  arrow (U+2192) become when they are read as Windows-1252 and written back as UTF-8.
\<close>

definition arrow :: string where
  "arrow = [CHR 0xC3, CHR 0xA2, CHR 0xE2, CHR 0x80, CHR 0xA0, CHR 0xE2, CHR 0x80, CHR 0x99]"

definition rightwardsArrow :: string where
  "rightwardsArrow = [CHR 0xE2, CHR 0x86, CHR 0x92]"

definition detailLine :: "world \<Rightarrow> StaleAttachment \<Rightarrow> string" where
  "detailLine w sa =
     (let location = (if Rig sa = [] then ''town'' else Rig sa);
          assigneeInfo = (if StaleAssignee sa \<noteq> [] then '' (assignee: '' @ StaleAssignee sa @ '')''
                          else [])
      in location @ '': '' @ PinnedTitle sa @ '' '' @ arrow @ '' '' @ MoleculeTitle sa
           @ assigneeInfo @ '' (stale for '' @ formatDuration w (StaleDuration sa) @ '')'')"

definition fixHint :: string where
  "fixHint = ''Check if polecats are stuck or crashed. Use 'gt witness nudge <polecat>' or 'gt polecat kill <name>' if needed''"

text \<open>The end of \<^verbatim>\<open>Run\<close>: the result built from the findings and the count.\<close>

definition report ::
  "StaleAttachmentsCheck \<Rightarrow> world \<Rightarrow> StaleAttachment list \<Rightarrow> nat \<Rightarrow> CheckResult" where
  "report c w staleAttachments checkedCount =
     (if length staleAttachments > 0 then
        \<lparr>ResultName = Name c,
         ResultStatus = StatusWarning,
         Message = fmt_d (length staleAttachments) @ '' stale attachment(s) found (no activity for >''
                     @ formatDuration w (Threshold c) @ '')'',
         Details = map (detailLine w) staleAttachments,
         FixHint = fixHint\<rparr>
      else if checkedCount = 0 then
        \<lparr>ResultName = Name c,
         ResultStatus = StatusOK,
         Message = ''No attachments to check'',
         Details = [],
         FixHint = []\<rparr>
      else
        \<lparr>ResultName = Name c,
         ResultStatus = StatusOK,
         Message = ''Checked '' @ fmt_d checkedCount @ '' attachment(s), none stale'',
         Details = [],
         FixHint = []\<rparr>)"

text \<open>Which rigs \<^verbatim>\<open>Run\<close> scans: the named one, or all that are discovered.\<close>

definition rigsToCheck :: "world \<Rightarrow> CheckContext \<Rightarrow> error + string list" where
  "rigsToCheck w ctx =
     (if RigName ctx \<noteq> [] then Inr [RigName ctx] else discoverRigs w (TownRoot ctx))"

text \<open>
  The findings and the count that \<^verbatim>\<open>Run\<close> accumulates over the rigs and the town store.
  The first reading of the clock fixes the cutoff.
\<close>

definition cutoffOf :: "StaleAttachmentsCheck \<Rightarrow> world \<Rightarrow> Time" where
  "cutoffOf c w = time_Add (fst (time_Now w 0)) (- Threshold c)"

definition gather ::
  "StaleAttachmentsCheck \<Rightarrow> world \<Rightarrow> CheckContext \<Rightarrow> string list \<Rightarrow> scan" where
  "gather c w ctx rigs =
     (case time_Now w 0 of (now, n) \<Rightarrow>
       (let cutoff = time_Add now (- Threshold c) in
        checkTown c w (TownRoot ctx) cutoff
          (rigLoop c w (TownRoot ctx) cutoff rigs ([], 0, n))))"

definition Run :: "StaleAttachmentsCheck \<Rightarrow> world \<Rightarrow> CheckContext \<Rightarrow> CheckResult" where
  "Run c w ctx =
     (case rigsToCheck w ctx of
        Inl err \<Rightarrow>
          \<lparr>ResultName = Name c,
           ResultStatus = StatusError,
           Message = ''Failed to discover rigs'',
           Details = [Error_text err],
           FixHint = []\<rparr>
      | Inr rigs \<Rightarrow>
          if length rigs = 0 then
            \<lparr>ResultName = Name c,
             ResultStatus = StatusOK,
             Message = ''No rigs configured'',
             Details = [],
             FixHint = []\<rparr>
          else
            (case gather c w ctx rigs of
               (staleAttachments, checkedCount, _) \<Rightarrow> report c w staleAttachments checkedCount))"

subsection \<open>A small town for the examples\<close>

text \<open>
  The town \<^verbatim>\<open>/town\<close>. Discovery finds the rig \<^verbatim>\<open>rig1\<close>, with the polecat \<^verbatim>\<open>alpha\<close> and the
  crew worker \<^verbatim>\<open>bob\<close>. The store of \<^verbatim>\<open>alpha\<close> pins six issues: \<^verbatim>\<open>pin-1\<close> is attached to a
  molecule in progress that was last updated two hours before the run, \<^verbatim>\<open>pin-2\<close> has no
  attachment, \<^verbatim>\<open>pin-3\<close> is attached to a molecule that cannot be fetched, \<^verbatim>\<open>pin-4\<close> to one
  whose timestamp does not parse, \<^verbatim>\<open>pin-5\<close> to a closed molecule as old as that of \<^verbatim>\<open>pin-1\<close>,
  and \<^verbatim>\<open>pin-6\<close> carries an empty attachment reference. The store of \<^verbatim>\<open>bob\<close> pins \<^verbatim>\<open>pin-7\<close>,
  attached to a molecule updated half an hour before the run. The town store pins
  \<^verbatim>\<open>pin-8\<close>, whose molecule carries the timestamp of the zero time.
  Two more rigs can be named: \<^verbatim>\<open>rig2\<close> has the polecats \<^verbatim>\<open>ghost\<close>, whose store cannot be
  listed, and \<^verbatim>\<open>delta\<close>, whose store pins \<^verbatim>\<open>pin-9\<close>, attached to the molecule of \<^verbatim>\<open>pin-7\<close>;
  the name \<^verbatim>\<open>rig[\<close> makes a malformed pattern, which \<^verbatim>\<open>filepath.Glob\<close> refuses.
  The run starts at 2026-10-30 12:00:00 UTC and every reading of the clock is a nanosecond
  after the one before.
\<close>

definition exNow :: Time where
  "exNow = 63928958400000000000"

definition exClock :: "nat \<Rightarrow> Time" where
  "exClock k = exNow + int k"

definition exParse :: "string \<Rightarrow> string \<Rightarrow> error + Time" where
  "exParse layout ts =
     (if layout = RFC3339 \<and> ts = ''2026-10-30T10:00:00Z'' then Inr 63928951200000000000
      else if layout = RFC3339 \<and> ts = ''2026-10-30T11:30:00Z'' then Inr 63928956600000000000
      else if layout = RFC3339 \<and> ts = ''0001-01-01T00:00:00Z'' then Inr 0
      else if layout = ''2006-01-02T15:04:05'' \<and> ts = ''2026-10-30T10:00:00''
        then Inr 63928951200000000000
      else if layout = ''2006-01-02'' \<and> ts = ''2026-10-30'' then Inr 63928915200000000000
      else Inl (Error ''cannot parse''))"

fun exJoin :: "string list \<Rightarrow> string" where
  "exJoin [] = []"
| "exJoin [x] = x"
| "exJoin (x # y # ys) = x @ ''/'' @ exJoin (y # ys)"

definition exDir :: "string \<Rightarrow> string" where
  "exDir p = rev (drop 1 (dropWhile (\<lambda>ch. ch \<noteq> CHR ''/'') (rev p)))"

definition exBase :: "string \<Rightarrow> string" where
  "exBase p = rev (takeWhile (\<lambda>ch. ch \<noteq> CHR ''/'') (rev p))"

definition exGlob :: "string \<Rightarrow> error + string list" where
  "exGlob pattern =
     (if pattern = ''/town/rig1/polecats/*/.beads'' then Inr [''/town/rig1/polecats/alpha/.beads'']
      else if pattern = ''/town/rig1/crew/*/.beads'' then Inr [''/town/rig1/crew/bob/.beads'']
      else if pattern = ''/town/rig2/polecats/*/.beads'' then
        Inr [''/town/rig2/polecats/ghost/.beads'', ''/town/rig2/polecats/delta/.beads'']
      else if pattern = ''/town/rig[/polecats/*/.beads'' \<or> pattern = ''/town/rig[/crew/*/.beads''
        then Inl (Error ''syntax error in pattern'')
      else Inr [])"

definition exPinned :: "string \<Rightarrow> string \<Rightarrow> string \<Rightarrow> Issue" where
  "exPinned i t a = \<lparr>ID = i, Title = t, Assignee = a, Status = ''pinned'', UpdatedAt = ''2026-10-30T10:00:00Z''\<rparr>"

definition exList :: "string \<Rightarrow> ListOptions \<Rightarrow> error + Issue list" where
  "exList dir opts =
     (if ListStatus opts \<noteq> ''pinned'' then Inr []
      else if dir = ''/town/rig1/polecats/alpha'' then
        Inr [exPinned ''pin-1'' ''alpha hook'' ''rig1/alpha'',
             exPinned ''pin-2'' ''alpha notes'' ''rig1/alpha'',
             exPinned ''pin-3'' ''alpha lost'' ''rig1/alpha'',
             exPinned ''pin-4'' ''alpha odd'' [],
             exPinned ''pin-5'' ''alpha done'' ''rig1/alpha'',
             exPinned ''pin-6'' ''alpha empty'' ''rig1/alpha'']
      else if dir = ''/town/rig1/crew/bob'' then Inr [exPinned ''pin-7'' ''bob hook'' ''rig1/crew/bob'']
      else if dir = ''/town/rig2/polecats/delta'' then
        Inr [exPinned ''pin-9'' ''delta hook'' ''rig2/delta'']
      else if dir = ''/town'' then Inr [exPinned ''pin-8'' ''mayor hook'' []]
      else Inl (Error ''no beads database''))"

definition exShow :: "string \<Rightarrow> string \<Rightarrow> error + Issue" where
  "exShow dir i =
     (if i = ''mol-1'' then
        Inr \<lparr>ID = ''mol-1'', Title = ''fix parser'', Assignee = ''rig1/alpha'',
             Status = ''in_progress'', UpdatedAt = ''2026-10-30T10:00:00Z''\<rparr>
      else if i = ''mol-bad'' then
        Inr \<lparr>ID = ''mol-bad'', Title = ''odd dates'', Assignee = [],
             Status = ''in_progress'', UpdatedAt = ''not-a-date''\<rparr>
      else if i = ''mol-done'' then
        Inr \<lparr>ID = ''mol-done'', Title = ''old work'', Assignee = ''rig1/alpha'',
             Status = ''closed'', UpdatedAt = ''2026-10-30T10:00:00Z''\<rparr>
      else if i = ''mol-2'' then
        Inr \<lparr>ID = ''mol-2'', Title = ''write docs'', Assignee = ''rig1/crew/bob'',
             Status = ''in_progress'', UpdatedAt = ''2026-10-30T11:30:00Z''\<rparr>
      else if i = ''mol-old'' then
        Inr \<lparr>ID = ''mol-old'', Title = ''town census'', Assignee = [],
             Status = ''in_progress'', UpdatedAt = ''0001-01-01T00:00:00Z''\<rparr>
      else Inl (Error ''issue not found''))"

definition exAttachment :: "Issue \<Rightarrow> AttachmentFields option" where
  "exAttachment issue =
     map_option (\<lambda>m. \<lparr>AttachedMolecule = m\<rparr>)
       (map_of [(''pin-1'', ''mol-1''), (''pin-3'', ''mol-404''), (''pin-4'', ''mol-bad''),
                (''pin-5'', ''mol-done''), (''pin-6'', []), (''pin-7'', ''mol-2''),
                (''pin-8'', ''mol-old''), (''pin-9'', ''mol-2'')] (ID issue))"

text \<open>A stand-in for \<^verbatim>\<open>formatDuration\<close>: whole seconds.\<close>

definition exFormat :: "Duration \<Rightarrow> string" where
  "exFormat d = fmt_d (nat (sint d div 1000000000)) @ ''s''"

definition exWorld :: world where
  "exWorld =
     \<lparr>clock = exClock,
      time_Parse = exParse,
      filepath_Join = exJoin,
      filepath_Dir = exDir,
      filepath_Base = exBase,
      filepath_Glob = exGlob,
      discoverRigs = (\<lambda>root. if root = ''/town'' then Inr [''rig1''] else Inl (Error ''cannot read town root'')),
      beads_List = exList,
      beads_Show = exShow,
      ParseAttachmentFields = exAttachment,
      formatDuration = exFormat\<rparr>"

definition exCheck :: StaleAttachmentsCheck where
  "exCheck = NewStaleAttachmentsCheck"

definition exCutoff :: Time where
  "exCutoff = exNow - 3600000000000"

text \<open>
  A parser more liberal than Go's, to tell the order of the attempts apart: it reads
  \<^verbatim>\<open>any\<close> under every layout, \<^verbatim>\<open>plain\<close> under the two layouts without offset and \<^verbatim>\<open>day\<close>
  under the date-only layout, each layout giving an instant of its own.
\<close>

definition exLooseParse :: "string \<Rightarrow> string \<Rightarrow> error + Time" where
  "exLooseParse layout ts =
     (if layout = RFC3339 \<and> ts = ''any'' then Inr 1
      else if layout = ''2006-01-02T15:04:05'' \<and> (ts = ''any'' \<or> ts = ''plain'') then Inr 2
      else if layout = ''2006-01-02'' \<and> (ts = ''any'' \<or> ts = ''plain'' \<or> ts = ''day'') then Inr 3
      else Inl (Error ''cannot parse''))"

definition exLooseWorld :: world where
  "exLooseWorld = exWorld\<lparr>time_Parse := exLooseParse\<rparr>"

text \<open>A town whose own store pins nothing.\<close>

definition exQuietList :: "string \<Rightarrow> ListOptions \<Rightarrow> error + Issue list" where
  "exQuietList dir opts = (if dir = ''/town'' then Inr [] else exList dir opts)"

definition exQuietWorld :: world where
  "exQuietWorld = exWorld\<lparr>beads_List := exQuietList\<rparr>"

text \<open>A town in which discovery finds no rig, and one with a threshold of \<open>2 ^ 62\<close> nanoseconds.\<close>

definition exNoRigsWorld :: world where
  "exNoRigsWorld = exWorld\<lparr>discoverRigs := (\<lambda>root. Inr [])\<rparr>"

definition exBigCheck :: StaleAttachmentsCheck where
  "exBigCheck = NewStaleAttachmentsCheckWithThreshold 4611686018427387904"

subsection \<open>Notions of the specification\<close>

text \<open>The number that a string of decimal digits states.\<close>

definition digitValue :: "char \<Rightarrow> nat" where
  "digitValue ch = of_char ch - 48"

definition readDecimal :: "string \<Rightarrow> nat" where
  "readDecimal s = foldl (\<lambda>a ch. 10 * a + digitValue ch) 0 s"

text \<open>
  An anchor declares an attachment when its attachment fields are present and name a
  molecule: the reference is present and not empty.
\<close>

definition hasAttachment :: "world \<Rightarrow> Issue \<Rightarrow> bool" where
  "hasAttachment w pinned =
     (case ParseAttachmentFields w pinned of
        None \<Rightarrow> False
      | Some attachment \<Rightarrow> AttachedMolecule attachment \<noteq> [])"



section \<open>Properties\<close>

subsection \<open>Arithmetic of durations\<close>

lemma sint_word_of_int_64:
  "- (2 ^ 63) \<le> x \<Longrightarrow> x < 2 ^ 63 \<Longrightarrow> sint (word_of_int x :: 64 word) = x"
  by (simp add: sint_sbintrunc' signed_take_bit_int_eq_self)

lemma sint_bounds_64: "- (2 ^ 63) \<le> sint (d :: 64 word)" "sint (d :: 64 word) < 2 ^ 63"
  using sint_range_size [of d] by (simp_all add: word_size)

lemma sint_minus_64:
  assumes "0 < sint (d :: 64 word)"
  shows "sint (- d) = - sint d"
proof -
  have "sint d < 2 ^ 63" by (rule sint_bounds_64)
  with assms show ?thesis
    by (simp add: sint_word_minus signed_take_bit_int_eq_self)
qed

lemma sint_plus_64:
  assumes "- (2 ^ 63) \<le> sint a + sint b" "sint a + sint b < 2 ^ 63"
  shows "sint (a + b :: 64 word) = sint a + sint b"
  using assms by (simp add: sint_word_add signed_take_bit_int_eq_self)

lemma time_Sub_exact:
  assumes "- (2 ^ 63) \<le> t - u" "t - u < 2 ^ 63"
  shows "sint (time_Sub t u) = t - u"
  using assms sint_word_of_int_64 [of "t - u"] by (simp add: time_Sub_def)

lemma time_Sub_saturated:
  "sint (time_Sub t u) = (if t - u > 2 ^ 63 - 1 then 2 ^ 63 - 1 else if t - u < - (2 ^ 63) then - (2 ^ 63) else t - u)"
  using sint_word_of_int_64 [of "t - u"] by (simp add: time_Sub_def maxDuration_def minDuration_def)

lemma cutoffOf_positive:
  assumes "0 < sint (Threshold c)"
  shows "cutoffOf c w = clock w 0 - sint (Threshold c)"
  using assms by (simp add: cutoffOf_def time_Now_def time_Add_def sint_minus_64)

lemma synthesized_duration:
  assumes pos: "0 < sint (Threshold c)"
    and mono: "clock w 0 \<le> clock w n"
    and fits: "clock w n - clock w 0 + 2 * sint (Threshold c) < 2 ^ 63"
  shows "sint (time_Sub (clock w n) (cutoffOf c w) + Threshold c)
           = clock w n - clock w 0 + 2 * sint (Threshold c)"
proof -
  let ?T = "sint (Threshold c)"
  have diff: "clock w n - cutoffOf c w = clock w n - clock w 0 + ?T"
    by (simp add: cutoffOf_positive [OF pos])
  have "sint (time_Sub (clock w n) (cutoffOf c w)) = clock w n - clock w 0 + ?T"
    using pos mono fits by (simp add: time_Sub_exact diff)
  then show ?thesis
    using pos mono fits by (simp add: sint_plus_64)
qed

subsection \<open>The loop over the pinned issues\<close>

lemma checkPinned_unattached:
  "\<not> hasAttachment w pinned \<Longrightarrow> checkPinned c w parentDir cutoff rigName pinned acc = acc"
  by (cases acc) (auto simp: checkPinned_def hasAttachment_def split: option.splits)

lemma checkPinned_attached:
  assumes "hasAttachment w pinned"
  shows "\<exists>fs n'. checkPinned c w parentDir cutoff rigName pinned (s, k, n) = (s @ fs, Suc k, n')
           \<and> (\<forall>f \<in> set fs. PinnedBeadID f = ID pinned \<and> PinnedTitle f = Title pinned
                 \<and> StaleAssignee f = Assignee pinned)"
  using assms
  by (auto simp: checkPinned_def hasAttachment_def time_Since_def time_Now_def
      split: option.splits sum.splits prod.splits)

lemma pinnedLoop_filter:
  "pinnedLoop c w parentDir cutoff rigName pinnedIssues acc
     = pinnedLoop c w parentDir cutoff rigName (filter (hasAttachment w) pinnedIssues) acc"
  by (induction pinnedIssues arbitrary: acc) (simp_all add: checkPinned_unattached)

lemma pinnedLoop_shape:
  "\<exists>fs n'. pinnedLoop c w parentDir cutoff rigName pinnedIssues (s, k, n)
             = (s @ fs, k + length (filter (hasAttachment w) pinnedIssues), n')
     \<and> (\<forall>f \<in> set fs. \<exists>p \<in> set pinnedIssues. hasAttachment w p \<and> PinnedBeadID f = ID p
            \<and> PinnedTitle f = Title p \<and> StaleAssignee f = Assignee p)"
proof (induction pinnedIssues arbitrary: s k n)
  case Nil
  show ?case by simp
next
  case (Cons p ps)
  show ?case
  proof (cases "hasAttachment w p")
    case False
    with Cons.IH [of s k n] show ?thesis
      by (auto simp: checkPinned_unattached)
  next
    case True
    from checkPinned_attached [OF True, of c parentDir cutoff rigName s k n]
    obtain fs n' where step: "checkPinned c w parentDir cutoff rigName p (s, k, n) = (s @ fs, Suc k, n')"
      and fs: "\<forall>f \<in> set fs. PinnedBeadID f = ID p \<and> PinnedTitle f = Title p \<and> StaleAssignee f = Assignee p"
      by blast
    from Cons.IH [of "s @ fs" "Suc k" n']
    obtain gs m where rest: "pinnedLoop c w parentDir cutoff rigName ps (s @ fs, Suc k, n')
             = ((s @ fs) @ gs, Suc k + length (filter (hasAttachment w) ps), m)"
      and gs: "\<forall>f \<in> set gs. \<exists>p \<in> set ps. hasAttachment w p \<and> PinnedBeadID f = ID p
            \<and> PinnedTitle f = Title p \<and> StaleAssignee f = Assignee p"
      by blast
    have "pinnedLoop c w parentDir cutoff rigName (p # ps) (s, k, n)
            = (s @ (fs @ gs), k + length (filter (hasAttachment w) (p # ps)), m)"
      using step rest True by simp
    moreover have "\<forall>f \<in> set (fs @ gs). \<exists>q \<in> set (p # ps). hasAttachment w q \<and> PinnedBeadID f = ID q
            \<and> PinnedTitle f = Title q \<and> StaleAssignee f = Assignee q"
      using fs gs True by auto
    ultimately show ?thesis by blast
  qed
qed

subsection \<open>Errors leave the clock alone\<close>

lemma checkBeadsDirWithContext_error:
  assumes "snd (snd (fst (checkBeadsDirWithContext c w workDir beadsDir cutoff rigName workerName n))) \<noteq> None"
  shows "\<exists>err. checkBeadsDirWithContext c w workDir beadsDir cutoff rigName workerName n
           = (([], 0, Some err), n)"
  using assms
  by (auto simp: checkBeadsDirWithContext_def Let_def split: sum.splits prod.splits)

lemma checkRig_error:
  assumes "snd (snd (fst (checkRig c w townRoot rigName cutoff n))) \<noteq> None"
  shows "\<exists>err. checkRig c w townRoot rigName cutoff n = (([], 0, Some err), n)"
  using assms
  by (auto simp: checkRig_def Let_def split: sum.splits prod.splits)

lemma checkStore_skips:
  assumes "snd (snd (fst (checkBeadsDirWithContext c w rigPath beadsPath cutoff rigName
              (label (filepath_Base w (filepath_Dir w beadsPath))) n))) \<noteq> None"
  shows "checkStore c w rigPath cutoff rigName label beadsPath (s, k, n) = (s, k, n)"
  using checkBeadsDirWithContext_error [OF assms]
  by (auto simp: checkStore_def Let_def)

lemma checkRigStep_skips:
  assumes "snd (snd (fst (checkRig c w townRoot rigName cutoff n))) \<noteq> None"
  shows "checkRigStep c w townRoot cutoff rigName (s, k, n) = (s, k, n)"
  using checkRig_error [OF assms]
  by (auto simp: checkRigStep_def)

lemma checkTown_skips:
  assumes "snd (snd (fst (checkBeadsDir c w townRoot (filepath_Join w [townRoot, ''.beads''])
              cutoff n))) \<noteq> None"
  shows "checkTown c w townRoot cutoff (s, k, n) = (s, k, n)"
  using checkBeadsDirWithContext_error [OF assms [unfolded checkBeadsDir_def]]
  by (auto simp: checkTown_def checkBeadsDir_def)

subsection \<open>The result of a run\<close>

lemma report_status:
  "ResultStatus (report c w staleAttachments checkedCount)
     = (if staleAttachments = [] then StatusOK else StatusWarning)"
  by (simp add: report_def)

lemma Run_gathered:
  assumes "rigsToCheck w ctx = Inr rigs" and "rigs \<noteq> []"
  shows "Run c w ctx = report c w (fst (gather c w ctx rigs)) (fst (snd (gather c w ctx rigs)))"
  using assms by (simp add: Run_def split: prod.splits)

lemma Run_status_error:
  "ResultStatus (Run c w ctx) = StatusError
     \<longleftrightarrow> RigName ctx = [] \<and> isl (discoverRigs w (TownRoot ctx))"
proof (cases "rigsToCheck w ctx")
  case (Inl err)
  then show ?thesis
    by (auto simp: Run_def rigsToCheck_def split: if_splits)
next
  case (Inr rigs)
  then have "\<not> (RigName ctx = [] \<and> isl (discoverRigs w (TownRoot ctx)))"
    by (auto simp: rigsToCheck_def split: if_splits)
  moreover have "ResultStatus (Run c w ctx) \<noteq> StatusError"
    using Inr by (cases "rigs = []") (simp_all add: Run_def report_status split: prod.splits)
  ultimately show ?thesis by simp
qed

text \<open>\<open>fmt_d\<close> writes a count in decimal, and \<^verbatim>\<open>Run\<close> scans with the cutoff \<open>cutoffOf\<close>.\<close>

lemma digit_nth: "d < 10 \<Longrightarrow> digitValue (''0123456789'' ! d) = d"
proof -
  assume "d < 10"
  then have "d \<in> {0, 1, 2, 3, 4, 5, 6, 7, 8, 9}" by auto
  then show ?thesis
    by (auto simp: digitValue_def)
qed

lemma fmt_d_decimal: "readDecimal (fmt_d n) = n"
proof (induction n rule: fmt_d.induct)
  case (1 n)
  show ?case
  proof (cases "n < 10")
    case True
    then show ?thesis
      by (simp add: fmt_d.simps [of n] readDecimal_def digit_nth)
  next
    case False
    with 1 have "readDecimal (fmt_d (n div 10)) = n div 10" by simp
    with False show ?thesis
      by (simp add: fmt_d.simps [of n] readDecimal_def digit_nth)
  qed
qed

lemma gather_cutoff:
  "gather c w ctx rigs =
     checkTown c w (TownRoot ctx) (cutoffOf c w)
       (rigLoop c w (TownRoot ctx) (cutoffOf c w) rigs ([], 0, 1))"
  by (simp add: gather_def cutoffOf_def time_Now_def Let_def)

subsection \<open>What a scan reads of the world\<close>

lemma checkPinned_frame:
  assumes "clock w' = clock w" and "time_Parse w' = time_Parse w"
    and "beads_Show w' = beads_Show w" and "ParseAttachmentFields w' = ParseAttachmentFields w"
  shows "checkPinned c w' parentDir cutoff rigName pinned acc
           = checkPinned c w parentDir cutoff rigName pinned acc"
  unfolding checkPinned_def parseTimestamp_def time_Since_def time_Now_def assms
  by (rule refl)

lemma pinnedLoop_frame:
  assumes "clock w' = clock w" and "time_Parse w' = time_Parse w"
    and "beads_Show w' = beads_Show w" and "ParseAttachmentFields w' = ParseAttachmentFields w"
  shows "pinnedLoop c w' parentDir cutoff rigName pinnedIssues acc
           = pinnedLoop c w parentDir cutoff rigName pinnedIssues acc"
  by (induction pinnedIssues arbitrary: acc) (simp_all add: checkPinned_frame [OF assms])

lemma checkBeadsDirWithContext_frame:
  assumes "clock w' = clock w" and "time_Parse w' = time_Parse w"
    and "beads_Show w' = beads_Show w" and "ParseAttachmentFields w' = ParseAttachmentFields w"
    and "beads_List w' = beads_List w" and "filepath_Dir w' = filepath_Dir w"
  shows "checkBeadsDirWithContext c w' workDir beadsDir cutoff rigName workerName n
           = checkBeadsDirWithContext c w workDir beadsDir cutoff rigName workerName n"
  unfolding checkBeadsDirWithContext_def assms(5,6) pinnedLoop_frame [OF assms(1-4)]
  by (rule refl)

text \<open>No scan reads the discovery of the rigs.\<close>

lemma store_ignores_discovery:
  "checkBeadsDirWithContext c (w\<lparr>discoverRigs := d\<rparr>) workDir beadsDir cutoff rigName workerName n
     = checkBeadsDirWithContext c w workDir beadsDir cutoff rigName workerName n"
  by (rule checkBeadsDirWithContext_frame) simp_all

lemma checkStore_ignores_discovery:
  "checkStore c (w\<lparr>discoverRigs := d\<rparr>) rigPath cutoff rigName label beadsPath acc
     = checkStore c w rigPath cutoff rigName label beadsPath acc"
  by (cases acc) (simp add: checkStore_def store_ignores_discovery)

lemma storeLoop_ignores_discovery:
  "storeLoop c (w\<lparr>discoverRigs := d\<rparr>) rigPath cutoff rigName label stores acc
     = storeLoop c w rigPath cutoff rigName label stores acc"
  by (induction stores arbitrary: acc) (simp_all add: checkStore_ignores_discovery)

lemma checkRig_ignores_discovery:
  "checkRig c (w\<lparr>discoverRigs := d\<rparr>) townRoot rigName cutoff n
     = checkRig c w townRoot rigName cutoff n"
  by (auto simp: checkRig_def polecatsPattern_def crewPattern_def Let_def
      storeLoop_ignores_discovery split: sum.splits)

lemma rigLoop_ignores_discovery:
  "rigLoop c (w\<lparr>discoverRigs := d\<rparr>) townRoot cutoff rigs acc
     = rigLoop c w townRoot cutoff rigs acc"
  by (induction rigs arbitrary: acc) (simp_all add: checkRigStep_def checkRig_ignores_discovery)

lemma gather_ignores_discovery:
  "gather c (w\<lparr>discoverRigs := d\<rparr>) ctx rigs = gather c w ctx rigs"
  by (simp add: gather_def time_Now_def rigLoop_ignores_discovery checkTown_def checkBeadsDir_def
      store_ignores_discovery)

lemma report_ignores_discovery:
  "report c (w\<lparr>discoverRigs := d\<rparr>) staleAttachments checkedCount
     = report c w staleAttachments checkedCount"
  by (simp add: report_def detailLine_def)

subsection \<open>Unfolding the example town\<close>

lemmas ex_defs = exWorld_def exCheck_def exCutoff_def exNow_def exClock_def exParse_def exShow_def
  exAttachment_def exPinned_def exList_def exGlob_def exDir_def exBase_def exFormat_def RFC3339_def
  NewStaleAttachmentsCheck_def NewStaleAttachmentsCheckWithThreshold_def DefaultStaleThreshold_def
  Hour_def StatusPinned_def

text \<open>The scan of the store of \<^verbatim>\<open>alpha\<close>, started after \<open>n\<close> readings of the clock.\<close>

lemma ex_alpha_store:
  "checkBeadsDirWithContext exCheck exWorld ''/town/rig1'' ''/town/rig1/polecats/alpha/.beads''
       exCutoff ''rig1'' worker n =
     (([\<lparr>Rig = ''rig1'', PinnedBeadID = ''pin-1'', PinnedTitle = ''alpha hook'',
         StaleAssignee = ''rig1/alpha'', MoleculeID = ''mol-1'', MoleculeTitle = ''fix parser'',
         LastUpdated = 63928951200000000000, StaleDuration = time_Sub (exClock n) 63928951200000000000\<rparr>,
        \<lparr>Rig = ''rig1'', PinnedBeadID = ''pin-3'', PinnedTitle = ''alpha lost'',
         StaleAssignee = ''rig1/alpha'', MoleculeID = ''mol-404'',
         MoleculeTitle = ''(molecule not found)'', LastUpdated = 0,
         StaleDuration = time_Sub (exClock (Suc n)) exCutoff + 3600000000000\<rparr>], 4, None), Suc (Suc n))"
  by (simp add: checkBeadsDirWithContext_def checkPinned_def parseTimestamp_def
      time_Since_def time_Now_def time_Before_def zeroTime_def ex_defs)

text \<open>The scan of the store of \<^verbatim>\<open>bob\<close>, the patterns of the rigs, and the scan of \<^verbatim>\<open>rig1\<close>.\<close>

lemma ex_bob_store:
  "checkBeadsDirWithContext exCheck exWorld ''/town/rig1'' ''/town/rig1/crew/bob/.beads''
       exCutoff ''rig1'' worker n = (([], 1, None), n)"
  by (simp add: checkBeadsDirWithContext_def checkPinned_def parseTimestamp_def
      time_Since_def time_Now_def time_Before_def zeroTime_def ex_defs)

lemma ex_patterns:
  "polecatsPattern exWorld ''/town'' ''rig1'' = ''/town/rig1/polecats/*/.beads''"
  "crewPattern exWorld ''/town'' ''rig1'' = ''/town/rig1/crew/*/.beads''"
  "polecatsPattern exWorld ''/town'' ''rig2'' = ''/town/rig2/polecats/*/.beads''"
  "crewPattern exWorld ''/town'' ''rig2'' = ''/town/rig2/crew/*/.beads''"
  "polecatsPattern exWorld ''/town'' ''rig['' = ''/town/rig[/polecats/*/.beads''"
  "crewPattern exWorld ''/town'' ''rig['' = ''/town/rig[/crew/*/.beads''"
  by (simp_all add: polecatsPattern_def crewPattern_def exWorld_def)

lemma ex_rig1:
  "checkRig exCheck exWorld ''/town'' ''rig1'' exCutoff n =
     (([\<lparr>Rig = ''rig1'', PinnedBeadID = ''pin-1'', PinnedTitle = ''alpha hook'',
         StaleAssignee = ''rig1/alpha'', MoleculeID = ''mol-1'', MoleculeTitle = ''fix parser'',
         LastUpdated = 63928951200000000000, StaleDuration = time_Sub (exClock n) 63928951200000000000\<rparr>,
        \<lparr>Rig = ''rig1'', PinnedBeadID = ''pin-3'', PinnedTitle = ''alpha lost'',
         StaleAssignee = ''rig1/alpha'', MoleculeID = ''mol-404'',
         MoleculeTitle = ''(molecule not found)'', LastUpdated = 0,
         StaleDuration = time_Sub (exClock (Suc n)) exCutoff + 3600000000000\<rparr>], 5, None), Suc (Suc n))"
proof -
  have j: "filepath_Join exWorld [''/town'', ''rig1''] = ''/town/rig1''"
    by (simp add: exWorld_def)
  have g: "filepath_Glob exWorld ''/town/rig1/polecats/*/.beads'' = Inr [''/town/rig1/polecats/alpha/.beads'']"
    "filepath_Glob exWorld ''/town/rig1/crew/*/.beads'' = Inr [''/town/rig1/crew/bob/.beads'']"
    by (simp_all add: exWorld_def exGlob_def)
  show ?thesis
    by (simp add: checkRig_def ex_patterns j g checkStore_def ex_alpha_store ex_bob_store)
qed

text \<open>The cutoff of the example run, the town store, and the places that fail.\<close>

lemma ex_cutoff: "time_Add (clock exWorld 0) (- Threshold exCheck) = exCutoff"
  by (simp add: time_Add_def ex_defs)

lemma ex_town_store:
  "checkBeadsDir exCheck exWorld ''/town'' ''/town/.beads'' exCutoff n =
     (([\<lparr>Rig = [], PinnedBeadID = ''pin-8'', PinnedTitle = ''mayor hook'', StaleAssignee = [],
         MoleculeID = ''mol-old'', MoleculeTitle = ''town census'', LastUpdated = 0,
         StaleDuration = maxDuration\<rparr>], 1, None), Suc n)"
  by (simp add: checkBeadsDir_def checkBeadsDirWithContext_def checkPinned_def parseTimestamp_def
      time_Since_def time_Now_def time_Before_def time_Sub_def zeroTime_def ex_defs)

lemma ex_ghost_store:
  "checkBeadsDirWithContext exCheck exWorld ''/town/rig2'' ''/town/rig2/polecats/ghost/.beads''
       exCutoff ''rig2'' worker n = (([], 0, Some (Error ''no beads database'')), n)"
  by (simp add: checkBeadsDirWithContext_def ex_defs)

lemma ex_bad_rig:
  "checkRig exCheck exWorld ''/town'' ''rig['' exCutoff n
     = (([], 0, Some (Error ''syntax error in pattern'')), n)"
proof -
  have "filepath_Glob exWorld ''/town/rig[/polecats/*/.beads'' = Inl (Error ''syntax error in pattern'')"
    by (simp add: exWorld_def exGlob_def)
  then show ?thesis
    by (simp add: checkRig_def ex_patterns)
qed

lemma ex_empty_town:
  "checkRig exCheck exWorld ''/empty'' ''rig1'' exCutoff n = (([], 0, None), n)"
  "checkBeadsDir exCheck exWorld ''/empty'' (filepath_Join exWorld [''/empty'', ''.beads'']) exCutoff n
     = (([], 0, Some (Error ''no beads database'')), n)"
  by (simp_all add: checkRig_def polecatsPattern_def crewPattern_def checkBeadsDir_def
      checkBeadsDirWithContext_def ex_defs)

text \<open>What a run gathers for \<^verbatim>\<open>rig1\<close>, in the town and where there is no town.\<close>

lemma ex_gather_rig1:
  "fst (gather exCheck exWorld \<lparr>TownRoot = ''/town'', RigName = r\<rparr> [''rig1'']) \<noteq> []"
  by (simp add: gather_def time_Now_def ex_cutoff checkRigStep_def ex_rig1 checkTown_def
      split: prod.splits sum.splits option.splits)

lemma ex_gather_nowhere:
  "gather exCheck exWorld \<lparr>TownRoot = ''/nowhere'', RigName = r\<rparr> [''rig1''] = ([], 0, 1)"
proof -
  have "checkRig exCheck exWorld ''/nowhere'' ''rig1'' exCutoff n = (([], 0, None), n)" for n
    by (simp add: checkRig_def polecatsPattern_def crewPattern_def ex_defs)
  moreover have "checkBeadsDir exCheck exWorld ''/nowhere''
      (filepath_Join exWorld [''/nowhere'', ''.beads'']) exCutoff n
     = (([], 0, Some (Error ''no beads database'')), n)" for n
    by (simp add: checkBeadsDir_def checkBeadsDirWithContext_def ex_defs)
  ultimately show ?thesis
    by (simp add: gather_def time_Now_def ex_cutoff checkRigStep_def checkTown_def)
qed

text \<open>What a run gathers in the town, and in the town whose own store pins nothing.\<close>

lemma ex_gather_town:
  "gather exCheck exWorld \<lparr>TownRoot = ''/town'', RigName = r\<rparr> [''rig1''] =
     ([\<lparr>Rig = ''rig1'', PinnedBeadID = ''pin-1'', PinnedTitle = ''alpha hook'',
        StaleAssignee = ''rig1/alpha'', MoleculeID = ''mol-1'', MoleculeTitle = ''fix parser'',
        LastUpdated = 63928951200000000000, StaleDuration = 7200000000001\<rparr>,
       \<lparr>Rig = ''rig1'', PinnedBeadID = ''pin-3'', PinnedTitle = ''alpha lost'',
        StaleAssignee = ''rig1/alpha'', MoleculeID = ''mol-404'',
        MoleculeTitle = ''(molecule not found)'', LastUpdated = 0,
        StaleDuration = 7200000000002\<rparr>,
       \<lparr>Rig = [], PinnedBeadID = ''pin-8'', PinnedTitle = ''mayor hook'', StaleAssignee = [],
        MoleculeID = ''mol-old'', MoleculeTitle = ''town census'', LastUpdated = 0,
        StaleDuration = 9223372036854775807\<rparr>], 6, 4)"
proof -
  have join: "filepath_Join exWorld [''/town'', ''.beads''] = ''/town/.beads''"
    by (simp add: exWorld_def)
  have durations: "time_Sub (exClock (Suc 0)) 63928951200000000000 = 7200000000001"
    "time_Sub (exClock (Suc (Suc 0))) exCutoff + 3600000000000 = 7200000000002"
    "maxDuration = 9223372036854775807"
    by (simp_all add: time_Sub_def maxDuration_def exClock_def exNow_def exCutoff_def)
  show ?thesis
    by (simp add: gather_def time_Now_def ex_cutoff checkRigStep_def ex_rig1 checkTown_def join
        ex_town_store durations)
qed

lemma ex_gather_quiet:
  "gather exCheck exQuietWorld \<lparr>TownRoot = ''/town'', RigName = ''rig2''\<rparr> [''rig2'']
     = ([], 1, 1)"
proof -
  have cutoff: "time_Add (clock exQuietWorld 0) (- Threshold exCheck) = exCutoff"
    by (simp add: exQuietWorld_def time_Add_def ex_defs)
  have rig: "checkRig exCheck exQuietWorld ''/town'' ''rig2'' exCutoff n = (([], 1, None), n)" for n
    by (simp add: checkRig_def polecatsPattern_def crewPattern_def checkStore_def
        checkBeadsDirWithContext_def checkPinned_def parseTimestamp_def time_Before_def
        polecatLabel_def exQuietWorld_def exQuietList_def ex_defs)
  have town: "checkBeadsDir exCheck exQuietWorld ''/town''
      (filepath_Join exQuietWorld [''/town'', ''.beads'']) exCutoff n = (([], 0, None), n)" for n
    by (simp add: checkBeadsDir_def checkBeadsDirWithContext_def exQuietWorld_def exQuietList_def
        ex_defs)
  show ?thesis
    by (simp add: gather_def time_Now_def cutoff checkRigStep_def rig checkTown_def town)
qed



subsection \<open>Resolved attachments\<close>

text \<open>
  C1 (as amended). Take an anchor whose attachment reference is not empty, whose molecule is
  fetched and whose timestamp parses to \<open>updatedAt\<close>. The iteration appends a finding if and
  only if the status of the molecule is exactly \<^verbatim>\<open>in_progress\<close> and \<open>updatedAt\<close> is strictly
  before the cutoff; a molecule of any other status gives no finding, whatever its
  timestamp. Either way the anchor is counted. The finding carries the molecule's id and
  title, \<open>updatedAt\<close>, and the duration that \<^verbatim>\<open>time.Since\<close> returns at the reading \<open>clock w n\<close>
  of the clock: the difference \<open>clock w n - updatedAt\<close> when that fits an \<^verbatim>\<open>int64\<close> of
  nanoseconds, and the largest (or smallest) duration when it does not.
\<close>

theorem resolved_attachment_finding:
  assumes "ParseAttachmentFields w pinned = Some attachment"
    and "AttachedMolecule attachment \<noteq> []"
    and "beads_Show w parentDir (AttachedMolecule attachment) = Inr mol"
    and "parseTimestamp w (UpdatedAt mol) = (updatedAt, None)"
  shows "checkPinned c w parentDir cutoff rigName pinned (staleAttachments, checked, n) =
           (if Status mol = ''in_progress'' \<and> updatedAt < cutoff then
              (staleAttachments @
                 [\<lparr>Rig = rigName,
                   PinnedBeadID = ID pinned,
                   PinnedTitle = Title pinned,
                   StaleAssignee = Assignee pinned,
                   MoleculeID = ID mol,
                   MoleculeTitle = Title mol,
                   LastUpdated = updatedAt,
                   StaleDuration = time_Sub (clock w n) updatedAt\<rparr>],
               checked + 1, Suc n)
            else (staleAttachments, checked + 1, n))
         \<and> sint (time_Sub (clock w n) updatedAt) =
             (if 2 ^ 63 - 1 < clock w n - updatedAt then 2 ^ 63 - 1
              else if clock w n - updatedAt < - (2 ^ 63) then - (2 ^ 63)
              else clock w n - updatedAt)"
  using assms
  by (simp add: checkPinned_def time_Since_def time_Now_def time_Before_def time_Sub_saturated)

text \<open>
  In the example town: \<^verbatim>\<open>pin-1\<close> (in progress, two hours old) is a finding of two hours
  and a nanosecond, \<^verbatim>\<open>pin-5\<close> (closed, as old) and \<^verbatim>\<open>pin-7\<close> (in progress, half an hour
  old) are counted and give none.
\<close>

theorem resolved_attachment_finding_witness:
  "checkPinned exCheck exWorld ''/town/rig1/polecats/alpha'' exCutoff ''rig1''
       (exPinned ''pin-1'' ''alpha hook'' ''rig1/alpha'') ([], 0, 1) =
     ([\<lparr>Rig = ''rig1'', PinnedBeadID = ''pin-1'', PinnedTitle = ''alpha hook'',
        StaleAssignee = ''rig1/alpha'', MoleculeID = ''mol-1'', MoleculeTitle = ''fix parser'',
        LastUpdated = 63928951200000000000, StaleDuration = 7200000000001\<rparr>], 1, 2)
   \<and> checkPinned exCheck exWorld ''/town/rig1/polecats/alpha'' exCutoff ''rig1''
       (exPinned ''pin-5'' ''alpha done'' ''rig1/alpha'') ([], 0, 1) = ([], 1, 1)
   \<and> checkPinned exCheck exWorld ''/town/rig1/crew/bob'' exCutoff ''rig1''
       (exPinned ''pin-7'' ''bob hook'' ''rig1/crew/bob'') ([], 0, 1) = ([], 1, 1)"
proof -
  have "parseTimestamp exWorld ''2026-10-30T10:00:00Z'' = (63928951200000000000, None)"
    and "parseTimestamp exWorld ''2026-10-30T11:30:00Z'' = (63928956600000000000, None)"
    by (simp_all add: parseTimestamp_def ex_defs)
  then show ?thesis
    using
      resolved_attachment_finding [where w = exWorld and c = exCheck and cutoff = exCutoff
        and pinned = "exPinned ''pin-1'' ''alpha hook'' ''rig1/alpha''"
        and attachment = "\<lparr>AttachedMolecule = ''mol-1''\<rparr>"
        and parentDir = "''/town/rig1/polecats/alpha''" and rigName = "''rig1''"
        and mol = "\<lparr>ID = ''mol-1'', Title = ''fix parser'', Assignee = ''rig1/alpha'',
             Status = ''in_progress'', UpdatedAt = ''2026-10-30T10:00:00Z''\<rparr>"
        and updatedAt = 63928951200000000000
        and staleAttachments = "[]" and checked = 0 and n = 1]
      resolved_attachment_finding [where w = exWorld and c = exCheck and cutoff = exCutoff
        and pinned = "exPinned ''pin-5'' ''alpha done'' ''rig1/alpha''"
        and attachment = "\<lparr>AttachedMolecule = ''mol-done''\<rparr>"
        and parentDir = "''/town/rig1/polecats/alpha''" and rigName = "''rig1''"
        and mol = "\<lparr>ID = ''mol-done'', Title = ''old work'', Assignee = ''rig1/alpha'',
             Status = ''closed'', UpdatedAt = ''2026-10-30T10:00:00Z''\<rparr>"
        and updatedAt = 63928951200000000000
        and staleAttachments = "[]" and checked = 0 and n = 1]
      resolved_attachment_finding [where w = exWorld and c = exCheck and cutoff = exCutoff
        and pinned = "exPinned ''pin-7'' ''bob hook'' ''rig1/crew/bob''"
        and attachment = "\<lparr>AttachedMolecule = ''mol-2''\<rparr>"
        and parentDir = "''/town/rig1/crew/bob''" and rigName = "''rig1''"
        and mol = "\<lparr>ID = ''mol-2'', Title = ''write docs'', Assignee = ''rig1/crew/bob'',
             Status = ''in_progress'', UpdatedAt = ''2026-10-30T11:30:00Z''\<rparr>"
        and updatedAt = 63928956600000000000
        and staleAttachments = "[]" and checked = 0 and n = 1]
    by (simp add: ex_defs time_Sub_def)
qed

text \<open>
  The duration is not always the difference of the instants. The molecule of \<^verbatim>\<open>pin-8\<close>
  carries \<^verbatim>\<open>0001-01-01T00:00:00Z\<close>, the timestamp Go writes for a time that was never set;
  it parses to the zero time, more than 292 years before the run, and the finding carries
  the largest duration, which is less than the time that has passed.
\<close>

theorem resolved_attachment_duration_counterexample:
  "beads_Show exWorld ''/town'' ''mol-old'' =
     Inr \<lparr>ID = ''mol-old'', Title = ''town census'', Assignee = [],
          Status = ''in_progress'', UpdatedAt = ''0001-01-01T00:00:00Z''\<rparr>
   \<and> parseTimestamp exWorld ''0001-01-01T00:00:00Z'' = (0, None)
   \<and> checkPinned exCheck exWorld ''/town'' exCutoff [] (exPinned ''pin-8'' ''mayor hook'' [])
         ([], 0, 1) =
       ([\<lparr>Rig = [], PinnedBeadID = ''pin-8'', PinnedTitle = ''mayor hook'', StaleAssignee = [],
          MoleculeID = ''mol-old'', MoleculeTitle = ''town census'', LastUpdated = 0,
          StaleDuration = 9223372036854775807\<rparr>], 1, 2)
   \<and> sint (9223372036854775807 :: Duration)
       \<noteq> clock exWorld 1 - fst (parseTimestamp exWorld ''0001-01-01T00:00:00Z'')"
  by (simp add: checkPinned_def parseTimestamp_def time_Since_def time_Now_def time_Before_def
      time_Sub_def maxDuration_def zeroTime_def ex_defs)

subsection \<open>Unresolvable attachments\<close>

text \<open>
  C2 (as amended). Take an anchor whose attachment reference is not empty and whose molecule
  cannot be fetched. The iteration appends exactly one finding and counts the anchor. The
  finding has the title \<^verbatim>\<open>(molecule not found)\<close>, the zero time as its last update, and the
  duration \<^verbatim>\<open>time.Since(cutoff) + c.Threshold\<close>, an \<^verbatim>\<open>int64\<close> sum. With the cutoff of \<^verbatim>\<open>Run\<close>,
  a positive threshold \<open>T\<close>, a clock that has not gone back since the cutoff was taken and
  \<open>e\<close> nanoseconds passed since then, the duration is \<open>e + 2 * T\<close> and strictly exceeds \<open>T\<close>,
  provided \<open>e + 2 * T\<close> fits an \<^verbatim>\<open>int64\<close>, which holds for every threshold up to 146 years.
\<close>

theorem unresolved_attachment_finding:
  assumes "ParseAttachmentFields w pinned = Some attachment"
    and "AttachedMolecule attachment \<noteq> []"
    and "beads_Show w parentDir (AttachedMolecule attachment) = Inl err"
  shows "checkPinned c w parentDir cutoff rigName pinned (staleAttachments, checked, n) =
           (staleAttachments @
              [\<lparr>Rig = rigName,
                PinnedBeadID = ID pinned,
                PinnedTitle = Title pinned,
                StaleAssignee = Assignee pinned,
                MoleculeID = AttachedMolecule attachment,
                MoleculeTitle = ''(molecule not found)'',
                LastUpdated = zeroTime,
                StaleDuration = time_Sub (clock w n) cutoff + Threshold c\<rparr>],
            checked + 1, Suc n)
         \<and> (0 < sint (Threshold c) \<and> clock w 0 \<le> clock w n
              \<and> clock w n - clock w 0 + 2 * sint (Threshold c) < 2 ^ 63
            \<longrightarrow> sint (time_Sub (clock w n) (cutoffOf c w) + Threshold c)
                  = clock w n - clock w 0 + 2 * sint (Threshold c)
                \<and> sint (Threshold c) < sint (time_Sub (clock w n) (cutoffOf c w) + Threshold c))"
proof -
  have "checkPinned c w parentDir cutoff rigName pinned (staleAttachments, checked, n) =
           (staleAttachments @
              [\<lparr>Rig = rigName,
                PinnedBeadID = ID pinned,
                PinnedTitle = Title pinned,
                StaleAssignee = Assignee pinned,
                MoleculeID = AttachedMolecule attachment,
                MoleculeTitle = ''(molecule not found)'',
                LastUpdated = zeroTime,
                StaleDuration = time_Sub (clock w n) cutoff + Threshold c\<rparr>],
            checked + 1, Suc n)"
    using assms by (simp add: checkPinned_def time_Since_def time_Now_def)
  moreover have "sint (time_Sub (clock w n) (cutoffOf c w) + Threshold c)
                  = clock w n - clock w 0 + 2 * sint (Threshold c)
                \<and> sint (Threshold c) < sint (time_Sub (clock w n) (cutoffOf c w) + Threshold c)"
    if "0 < sint (Threshold c)" "clock w 0 \<le> clock w n"
      "clock w n - clock w 0 + 2 * sint (Threshold c) < 2 ^ 63"
    using synthesized_duration [OF that] that by simp
  ultimately show ?thesis by blast
qed

text \<open>
  In the example town \<^verbatim>\<open>pin-3\<close> names the missing molecule \<^verbatim>\<open>mol-404\<close>; with the default
  threshold of one hour the finding carries two hours and a nanosecond.
\<close>

theorem unresolved_attachment_finding_witness:
  "checkPinned exCheck exWorld ''/town/rig1/polecats/alpha'' (cutoffOf exCheck exWorld) ''rig1''
       (exPinned ''pin-3'' ''alpha lost'' ''rig1/alpha'') ([], 0, 1) =
     ([\<lparr>Rig = ''rig1'', PinnedBeadID = ''pin-3'', PinnedTitle = ''alpha lost'',
        StaleAssignee = ''rig1/alpha'', MoleculeID = ''mol-404'',
        MoleculeTitle = ''(molecule not found)'', LastUpdated = 0,
        StaleDuration = 7200000000001\<rparr>], 1, 2)
   \<and> sint (Threshold exCheck) = 3600000000000
   \<and> clock exWorld 0 \<le> clock exWorld 1
   \<and> sint (time_Sub (clock exWorld 1) (cutoffOf exCheck exWorld) + Threshold exCheck)
       = 7200000000001
   \<and> sint (Threshold exCheck)
       < sint (time_Sub (clock exWorld 1) (cutoffOf exCheck exWorld) + Threshold exCheck)"
  using unresolved_attachment_finding [where w = exWorld and c = exCheck
      and cutoff = "cutoffOf exCheck exWorld"
      and pinned = "exPinned ''pin-3'' ''alpha lost'' ''rig1/alpha''"
      and attachment = "\<lparr>AttachedMolecule = ''mol-404''\<rparr>"
      and parentDir = "''/town/rig1/polecats/alpha''" and rigName = "''rig1''"
      and err = "Error ''issue not found''"
      and staleAttachments = "[]" and checked = 0 and n = 1]
  by (simp add: ex_defs cutoffOf_def time_Now_def time_Add_def time_Sub_def zeroTime_def)

text \<open>
  For a larger threshold the sum wraps around. With a threshold of \<open>2 ^ 62\<close> nanoseconds
  (a little over 146 years) the same anchor gives a finding whose duration is negative,
  hence not above the threshold.
\<close>

theorem unresolved_attachment_duration_counterexample:
  "0 < sint (Threshold exBigCheck)
   \<and> sint (Threshold exBigCheck) = 4611686018427387904
   \<and> clock exWorld 0 \<le> clock exWorld 1
   \<and> checkPinned exBigCheck exWorld ''/town/rig1/polecats/alpha'' (cutoffOf exBigCheck exWorld)
         ''rig1'' (exPinned ''pin-3'' ''alpha lost'' ''rig1/alpha'') ([], 0, 1) =
       ([\<lparr>Rig = ''rig1'', PinnedBeadID = ''pin-3'', PinnedTitle = ''alpha lost'',
          StaleAssignee = ''rig1/alpha'', MoleculeID = ''mol-404'',
          MoleculeTitle = ''(molecule not found)'', LastUpdated = 0,
          StaleDuration = word_of_int (- 9223372036854775807)\<rparr>], 1, 2)
   \<and> sint (word_of_int (- 9223372036854775807) :: Duration) = - 9223372036854775807
   \<and> \<not> sint (Threshold exBigCheck) < sint (word_of_int (- 9223372036854775807) :: Duration)"
  by (simp add: checkPinned_def time_Since_def time_Now_def time_Add_def time_Sub_def
      cutoffOf_def zeroTime_def exBigCheck_def ex_defs)

subsection \<open>The checked count\<close>

text \<open>
  C3. When the pinned issues of a store are listed, the count that the scan returns is the
  number of listed anchors whose attachment reference is present and not empty, whether or
  not they become findings; every finding stems from such an anchor; and the scan returns
  what it would return had the other anchors not been listed at all. An anchor without an
  attachment reference, or with an empty one, leaves the findings, the count and the clock
  as they were. When the store cannot be listed there is no anchor, no finding, and the
  count is 0.
\<close>

theorem checked_count:
  "(beads_List w (filepath_Dir w beadsDir) \<lparr>ListStatus = StatusPinned, ListPriority = - 1\<rparr>
        = Inr pinnedIssues \<longrightarrow>
      fst (snd (fst (checkBeadsDirWithContext c w workDir beadsDir cutoff rigName workerName n)))
        = length (filter (hasAttachment w) pinnedIssues)
      \<and> (\<forall>f \<in> set (fst (fst (checkBeadsDirWithContext c w workDir beadsDir cutoff rigName workerName n))).
            \<exists>p \<in> set pinnedIssues. hasAttachment w p \<and> PinnedBeadID f = ID p
              \<and> PinnedTitle f = Title p \<and> StaleAssignee f = Assignee p)
      \<and> checkBeadsDirWithContext c w workDir beadsDir cutoff rigName workerName n
          = (case pinnedLoop c w (filepath_Dir w beadsDir) cutoff rigName
                    (filter (hasAttachment w) pinnedIssues) ([], 0, n) of
               (staleAttachments, checked, n') \<Rightarrow> ((staleAttachments, checked, None), n')))
   \<and> (beads_List w (filepath_Dir w beadsDir) \<lparr>ListStatus = StatusPinned, ListPriority = - 1\<rparr>
        = Inl err \<longrightarrow>
      checkBeadsDirWithContext c w workDir beadsDir cutoff rigName workerName n
        = (([], 0, Some err), n))
   \<and> (\<not> hasAttachment w pinned \<longrightarrow>
      checkPinned c w parentDir cutoff rigName pinned (staleAttachments, checked, m)
        = (staleAttachments, checked, m))"
proof (intro conjI impI)
  assume listed: "beads_List w (filepath_Dir w beadsDir)
      \<lparr>ListStatus = StatusPinned, ListPriority = - 1\<rparr> = Inr pinnedIssues"
  let ?dir = "filepath_Dir w beadsDir"
  from pinnedLoop_shape [of c w ?dir cutoff rigName pinnedIssues "[]" 0 n]
  obtain fs n' where loop: "pinnedLoop c w ?dir cutoff rigName pinnedIssues ([], 0, n)
        = (fs, length (filter (hasAttachment w) pinnedIssues), n')"
    and fs: "\<forall>f \<in> set fs. \<exists>p \<in> set pinnedIssues. hasAttachment w p \<and> PinnedBeadID f = ID p
            \<and> PinnedTitle f = Title p \<and> StaleAssignee f = Assignee p"
    by auto
  have result: "checkBeadsDirWithContext c w workDir beadsDir cutoff rigName workerName n
      = ((fs, length (filter (hasAttachment w) pinnedIssues), None), n')"
    using listed loop by (simp add: checkBeadsDirWithContext_def)
  show "fst (snd (fst (checkBeadsDirWithContext c w workDir beadsDir cutoff rigName workerName n)))
        = length (filter (hasAttachment w) pinnedIssues)"
    by (simp add: result)
  show "\<forall>f \<in> set (fst (fst (checkBeadsDirWithContext c w workDir beadsDir cutoff rigName workerName n))).
            \<exists>p \<in> set pinnedIssues. hasAttachment w p \<and> PinnedBeadID f = ID p
              \<and> PinnedTitle f = Title p \<and> StaleAssignee f = Assignee p"
    using fs by (simp add: result)
  show "checkBeadsDirWithContext c w workDir beadsDir cutoff rigName workerName n
          = (case pinnedLoop c w (filepath_Dir w beadsDir) cutoff rigName
                    (filter (hasAttachment w) pinnedIssues) ([], 0, n) of
               (staleAttachments, checked, n') \<Rightarrow> ((staleAttachments, checked, None), n'))"
    using listed
    by (simp add: checkBeadsDirWithContext_def
        pinnedLoop_filter [of c w ?dir cutoff rigName pinnedIssues])
next
  assume "beads_List w (filepath_Dir w beadsDir)
      \<lparr>ListStatus = StatusPinned, ListPriority = - 1\<rparr> = Inl err"
  then show "checkBeadsDirWithContext c w workDir beadsDir cutoff rigName workerName n
        = (([], 0, Some err), n)"
    by (simp add: checkBeadsDirWithContext_def)
next
  assume "\<not> hasAttachment w pinned"
  then show "checkPinned c w parentDir cutoff rigName pinned (staleAttachments, checked, m)
        = (staleAttachments, checked, m)"
    by (rule checkPinned_unattached)
qed

text \<open>
  The store of \<^verbatim>\<open>alpha\<close> lists six anchors; four declare an attachment and are counted,
  two of them become findings; \<^verbatim>\<open>pin-2\<close> and \<^verbatim>\<open>pin-6\<close> declare none. The store of
  \<^verbatim>\<open>ghost\<close> cannot be listed.
\<close>

theorem checked_count_witness:
  "beads_List exWorld ''/town/rig1/polecats/alpha'' \<lparr>ListStatus = StatusPinned, ListPriority = - 1\<rparr> =
     Inr [exPinned ''pin-1'' ''alpha hook'' ''rig1/alpha'',
          exPinned ''pin-2'' ''alpha notes'' ''rig1/alpha'',
          exPinned ''pin-3'' ''alpha lost'' ''rig1/alpha'',
          exPinned ''pin-4'' ''alpha odd'' [],
          exPinned ''pin-5'' ''alpha done'' ''rig1/alpha'',
          exPinned ''pin-6'' ''alpha empty'' ''rig1/alpha'']
   \<and> fst (snd (fst (checkBeadsDirWithContext exCheck exWorld ''/town/rig1''
          ''/town/rig1/polecats/alpha/.beads'' exCutoff ''rig1'' ''alpha'' 1))) = 4
   \<and> length (fst (fst (checkBeadsDirWithContext exCheck exWorld ''/town/rig1''
          ''/town/rig1/polecats/alpha/.beads'' exCutoff ''rig1'' ''alpha'' 1))) = 2
   \<and> \<not> hasAttachment exWorld (exPinned ''pin-2'' ''alpha notes'' ''rig1/alpha'')
   \<and> \<not> hasAttachment exWorld (exPinned ''pin-6'' ''alpha empty'' ''rig1/alpha'')
   \<and> checkPinned exCheck exWorld ''/town/rig1/polecats/alpha'' exCutoff ''rig1''
        (exPinned ''pin-6'' ''alpha empty'' ''rig1/alpha'') ([], 3, 2) = ([], 3, 2)
   \<and> checkBeadsDirWithContext exCheck exWorld ''/town/rig2'' ''/town/rig2/polecats/ghost/.beads''
        exCutoff ''rig2'' ''ghost'' 1 = (([], 0, Some (Error ''no beads database'')), 1)"
proof -
  have dirs: "filepath_Dir exWorld ''/town/rig1/polecats/alpha/.beads'' = ''/town/rig1/polecats/alpha''"
    "filepath_Dir exWorld ''/town/rig2/polecats/ghost/.beads'' = ''/town/rig2/polecats/ghost''"
    by (simp_all add: ex_defs)
  have listed: "beads_List exWorld ''/town/rig1/polecats/alpha''
      \<lparr>ListStatus = StatusPinned, ListPriority = - 1\<rparr> =
     Inr [exPinned ''pin-1'' ''alpha hook'' ''rig1/alpha'',
          exPinned ''pin-2'' ''alpha notes'' ''rig1/alpha'',
          exPinned ''pin-3'' ''alpha lost'' ''rig1/alpha'',
          exPinned ''pin-4'' ''alpha odd'' [],
          exPinned ''pin-5'' ''alpha done'' ''rig1/alpha'',
          exPinned ''pin-6'' ''alpha empty'' ''rig1/alpha'']"
    and failed: "beads_List exWorld ''/town/rig2/polecats/ghost''
      \<lparr>ListStatus = StatusPinned, ListPriority = - 1\<rparr> = Inl (Error ''no beads database'')"
    by (simp_all add: ex_defs)
  have att: "filter (hasAttachment exWorld)
         [exPinned ''pin-1'' ''alpha hook'' ''rig1/alpha'',
          exPinned ''pin-2'' ''alpha notes'' ''rig1/alpha'',
          exPinned ''pin-3'' ''alpha lost'' ''rig1/alpha'',
          exPinned ''pin-4'' ''alpha odd'' [],
          exPinned ''pin-5'' ''alpha done'' ''rig1/alpha'',
          exPinned ''pin-6'' ''alpha empty'' ''rig1/alpha'']
       = [exPinned ''pin-1'' ''alpha hook'' ''rig1/alpha'',
          exPinned ''pin-3'' ''alpha lost'' ''rig1/alpha'',
          exPinned ''pin-4'' ''alpha odd'' [],
          exPinned ''pin-5'' ''alpha done'' ''rig1/alpha'']"
    and none: "\<not> hasAttachment exWorld (exPinned ''pin-2'' ''alpha notes'' ''rig1/alpha'')"
      "\<not> hasAttachment exWorld (exPinned ''pin-6'' ''alpha empty'' ''rig1/alpha'')"
    by (simp_all add: hasAttachment_def ex_defs)
  note alpha = checked_count [where w = exWorld and c = exCheck and cutoff = exCutoff
      and beadsDir = "''/town/rig1/polecats/alpha/.beads''" and workDir = "''/town/rig1''"
      and rigName = "''rig1''" and workerName = "''alpha''" and n = 1
      and pinned = "exPinned ''pin-6'' ''alpha empty'' ''rig1/alpha''"
      and parentDir = "''/town/rig1/polecats/alpha''" and staleAttachments = "[]"
      and checked = 3 and m = 2, unfolded dirs, THEN conjunct1, rule_format, OF listed]
  note skip = checked_count [where w = exWorld and c = exCheck and cutoff = exCutoff
      and beadsDir = "''/town/rig1/polecats/alpha/.beads''"
      and rigName = "''rig1''"
      and pinned = "exPinned ''pin-6'' ''alpha empty'' ''rig1/alpha''"
      and parentDir = "''/town/rig1/polecats/alpha''" and staleAttachments = "[]"
      and checked = 3 and m = 2, THEN conjunct2, THEN conjunct2, rule_format, OF none(2)]
  note ghost = checked_count [where w = exWorld and c = exCheck and cutoff = exCutoff
      and beadsDir = "''/town/rig2/polecats/ghost/.beads''" and workDir = "''/town/rig2''"
      and rigName = "''rig2''" and workerName = "''ghost''" and n = 1,
      unfolded dirs, THEN conjunct2, THEN conjunct1, rule_format, OF failed]
  have "length (fst (fst (checkBeadsDirWithContext exCheck exWorld ''/town/rig1''
          ''/town/rig1/polecats/alpha/.beads'' exCutoff ''rig1'' ''alpha'' 1))) = 2"
    by (simp add: ex_alpha_store)
  moreover note alpha [THEN conjunct1, unfolded att] skip ghost listed none
  ultimately show ?thesis
    by simp
qed

subsection \<open>Unparseable timestamps\<close>

text \<open>
  C6. Take an anchor whose attachment reference is not empty and whose molecule is fetched,
  but whose timestamp \<^verbatim>\<open>parseTimestamp\<close> rejects. The iteration appends no finding and reads
  no clock; the counter, incremented before the fetch, stays incremented by one.
\<close>

theorem unparseable_timestamp_skipped:
  assumes "ParseAttachmentFields w pinned = Some attachment"
    and "AttachedMolecule attachment \<noteq> []"
    and "beads_Show w parentDir (AttachedMolecule attachment) = Inr mol"
    and "snd (parseTimestamp w (UpdatedAt mol)) = Some err"
  shows "checkPinned c w parentDir cutoff rigName pinned (staleAttachments, checked, n) =
           (staleAttachments, checked + 1, n)"
  using assms
  by (cases "parseTimestamp w (UpdatedAt mol)") (simp add: checkPinned_def)

text \<open>In the example town the molecule of \<^verbatim>\<open>pin-4\<close> carries \<^verbatim>\<open>not-a-date\<close>.\<close>

theorem unparseable_timestamp_skipped_witness:
  "snd (parseTimestamp exWorld ''not-a-date'') = Some (Error ''unable to parse timestamp: not-a-date'')
   \<and> checkPinned exCheck exWorld ''/town/rig1/polecats/alpha'' exCutoff ''rig1''
       (exPinned ''pin-4'' ''alpha odd'' []) ([], 0, 1) = ([], 1, 1)"
  using unparseable_timestamp_skipped [where w = exWorld and c = exCheck and cutoff = exCutoff
      and pinned = "exPinned ''pin-4'' ''alpha odd'' []"
      and attachment = "\<lparr>AttachedMolecule = ''mol-bad''\<rparr>"
      and parentDir = "''/town/rig1/polecats/alpha''" and rigName = "''rig1''"
      and mol = "\<lparr>ID = ''mol-bad'', Title = ''odd dates'', Assignee = [],
             Status = ''in_progress'', UpdatedAt = ''not-a-date''\<rparr>"
      and err = "Error ''unable to parse timestamp: not-a-date''"
      and staleAttachments = "[]" and checked = 0 and n = 1]
  by (simp add: ex_defs parseTimestamp_def)

subsection \<open>The timestamp parser\<close>

text \<open>
  C7. \<^verbatim>\<open>parseTimestamp\<close> tries the layouts in a fixed order: RFC 3339 (date and time with
  offset), date and time without offset, date only. It returns what the first layout that
  parses gives, whatever a later layout would give for the same string; when all three
  fail it returns the zero time together with an error.
\<close>

theorem parseTimestamp_priority:
  "(time_Parse w RFC3339 ts = Inr t1 \<longrightarrow> parseTimestamp w ts = (t1, None))
   \<and> (time_Parse w RFC3339 ts = Inl e1 \<and> time_Parse w ''2006-01-02T15:04:05'' ts = Inr t2
        \<longrightarrow> parseTimestamp w ts = (t2, None))
   \<and> (time_Parse w RFC3339 ts = Inl e1 \<and> time_Parse w ''2006-01-02T15:04:05'' ts = Inl e2
        \<and> time_Parse w ''2006-01-02'' ts = Inr t3
        \<longrightarrow> parseTimestamp w ts = (t3, None))
   \<and> (time_Parse w RFC3339 ts = Inl e1 \<and> time_Parse w ''2006-01-02T15:04:05'' ts = Inl e2
        \<and> time_Parse w ''2006-01-02'' ts = Inl e3
        \<longrightarrow> parseTimestamp w ts = (zeroTime, Some (Error (''unable to parse timestamp: '' @ ts))))"
  by (simp add: parseTimestamp_def)

text \<open>
  With the liberal parser, \<^verbatim>\<open>any\<close> parses under all three layouts and the result is that of
  the first; \<^verbatim>\<open>plain\<close> parses under the last two and the result is that of the second.
\<close>

theorem parseTimestamp_priority_witness:
  "time_Parse exLooseWorld RFC3339 ''any'' = Inr 1
   \<and> time_Parse exLooseWorld ''2006-01-02T15:04:05'' ''any'' = Inr 2
   \<and> time_Parse exLooseWorld ''2006-01-02'' ''any'' = Inr 3
   \<and> parseTimestamp exLooseWorld ''any'' = (1, None)
   \<and> time_Parse exLooseWorld ''2006-01-02'' ''plain'' = Inr 3
   \<and> parseTimestamp exLooseWorld ''plain'' = (2, None)
   \<and> parseTimestamp exLooseWorld ''day'' = (3, None)
   \<and> parseTimestamp exLooseWorld ''never'' = (0, Some (Error ''unable to parse timestamp: never''))
   \<and> parseTimestamp exWorld ''2026-10-30T10:00:00Z'' = (63928951200000000000, None)
   \<and> parseTimestamp exWorld ''2026-10-30T10:00:00'' = (63928951200000000000, None)
   \<and> parseTimestamp exWorld ''2026-10-30'' = (63928915200000000000, None)"
  using
    parseTimestamp_priority [where w = exLooseWorld and ts = "''any''" and ?t1.0 = 1]
    parseTimestamp_priority [where w = exLooseWorld and ts = "''plain''" and ?t2.0 = 2
      and ?e1.0 = "Error ''cannot parse''"]
    parseTimestamp_priority [where w = exLooseWorld and ts = "''day''" and ?t3.0 = 3
      and ?e1.0 = "Error ''cannot parse''" and ?e2.0 = "Error ''cannot parse''"]
    parseTimestamp_priority [where w = exLooseWorld and ts = "''never''"
      and ?e1.0 = "Error ''cannot parse''" and ?e2.0 = "Error ''cannot parse''"
      and ?e3.0 = "Error ''cannot parse''"]
    parseTimestamp_priority [where w = exWorld and ts = "''2026-10-30T10:00:00Z''"
      and ?t1.0 = 63928951200000000000]
    parseTimestamp_priority [where w = exWorld and ts = "''2026-10-30T10:00:00''"
      and ?t2.0 = 63928951200000000000 and ?e1.0 = "Error ''cannot parse''"]
    parseTimestamp_priority [where w = exWorld and ts = "''2026-10-30''"
      and ?t3.0 = 63928915200000000000
      and ?e1.0 = "Error ''cannot parse''" and ?e2.0 = "Error ''cannot parse''"]
  by (simp add: exLooseWorld_def exLooseParse_def zeroTime_def ex_defs)

subsection \<open>The two patterns of a rig\<close>



subsection \<open>Errors stay inside a run\<close>

text \<open>
  C4. \<^verbatim>\<open>Run\<close> is a total function to a result: it returns one result and no error. Its
  status is \<^verbatim>\<open>StatusError\<close> exactly when no rig is named and the discovery of the rigs fails,
  and the result is then the message \<^verbatim>\<open>Failed to discover rigs\<close> with the text of the error.
  In every other case with a rig to scan the result is built from what was gathered, and
  the failures on the way are dropped: a rig for which \<^verbatim>\<open>checkRig\<close> returns an error is
  skipped and the loop goes on with the next rig; a store that cannot be scanned is skipped
  and the loop goes on with the next store; a town store that cannot be scanned adds
  nothing. A skipped rig or store leaves the findings, the count and the clock as they were.
\<close>

theorem Run_absorbs_errors:
  "(ResultStatus (Run c w ctx) = StatusError
      \<longleftrightarrow> RigName ctx = [] \<and> isl (discoverRigs w (TownRoot ctx)))
   \<and> (RigName ctx = [] \<and> discoverRigs w (TownRoot ctx) = Inl err \<longrightarrow>
        Run c w ctx =
          \<lparr>ResultName = Name c, ResultStatus = StatusError, Message = ''Failed to discover rigs'',
           Details = [Error_text err], FixHint = []\<rparr>)
   \<and> (rigsToCheck w ctx = Inr rigs \<and> rigs \<noteq> [] \<longrightarrow>
        Run c w ctx = report c w (fst (gather c w ctx rigs)) (fst (snd (gather c w ctx rigs))))
   \<and> (snd (snd (fst (checkRig c w townRoot rigName cutoff n))) \<noteq> None \<longrightarrow>
        rigLoop c w townRoot cutoff (rigName # rest) (s, k, n)
          = rigLoop c w townRoot cutoff rest (s, k, n))
   \<and> (snd (snd (fst (checkBeadsDirWithContext c w rigPath beadsPath cutoff rigName
                        (label (filepath_Base w (filepath_Dir w beadsPath))) n))) \<noteq> None \<longrightarrow>
        storeLoop c w rigPath cutoff rigName label (beadsPath # stores) (s, k, n)
          = storeLoop c w rigPath cutoff rigName label stores (s, k, n))
   \<and> (snd (snd (fst (checkBeadsDir c w townRoot (filepath_Join w [townRoot, ''.beads''])
                        cutoff n))) \<noteq> None \<longrightarrow>
        checkTown c w townRoot cutoff (s, k, n) = (s, k, n))"
proof (intro conjI impI)
  show "ResultStatus (Run c w ctx) = StatusError
      \<longleftrightarrow> RigName ctx = [] \<and> isl (discoverRigs w (TownRoot ctx))"
    by (rule Run_status_error)
next
  assume "RigName ctx = [] \<and> discoverRigs w (TownRoot ctx) = Inl err"
  then show "Run c w ctx =
          \<lparr>ResultName = Name c, ResultStatus = StatusError, Message = ''Failed to discover rigs'',
           Details = [Error_text err], FixHint = []\<rparr>"
    by (simp add: Run_def rigsToCheck_def)
next
  assume "rigsToCheck w ctx = Inr rigs \<and> rigs \<noteq> []"
  then show "Run c w ctx = report c w (fst (gather c w ctx rigs)) (fst (snd (gather c w ctx rigs)))"
    by (simp add: Run_gathered)
next
  assume "snd (snd (fst (checkRig c w townRoot rigName cutoff n))) \<noteq> None"
  then show "rigLoop c w townRoot cutoff (rigName # rest) (s, k, n)
          = rigLoop c w townRoot cutoff rest (s, k, n)"
    by (simp add: checkRigStep_skips)
next
  assume "snd (snd (fst (checkBeadsDirWithContext c w rigPath beadsPath cutoff rigName
                        (label (filepath_Base w (filepath_Dir w beadsPath))) n))) \<noteq> None"
  then show "storeLoop c w rigPath cutoff rigName label (beadsPath # stores) (s, k, n)
          = storeLoop c w rigPath cutoff rigName label stores (s, k, n)"
    by (simp add: checkStore_skips)
next
  assume "snd (snd (fst (checkBeadsDir c w townRoot (filepath_Join w [townRoot, ''.beads''])
                        cutoff n))) \<noteq> None"
  then show "checkTown c w townRoot cutoff (s, k, n) = (s, k, n)"
    by (rule checkTown_skips)
qed

text \<open>
  In the example town: discovery fails under \<^verbatim>\<open>/nowhere\<close>; the rig \<^verbatim>\<open>rig[\<close> is skipped
  before \<^verbatim>\<open>rig1\<close>; the store of \<^verbatim>\<open>ghost\<close> is skipped before that of \<^verbatim>\<open>delta\<close>; under
  \<^verbatim>\<open>/empty\<close> no store can be listed and \<^verbatim>\<open>Run\<close> still reports; with \<^verbatim>\<open>rig[\<close> named, the
  town store is still scanned and its finding is reported.
\<close>

theorem Run_absorbs_errors_witness:
  "Run exCheck exWorld \<lparr>TownRoot = ''/nowhere'', RigName = []\<rparr> =
     \<lparr>ResultName = ''stale-attachments'', ResultStatus = StatusError,
      Message = ''Failed to discover rigs'', Details = [''cannot read town root''], FixHint = []\<rparr>
   \<and> ResultStatus (Run exCheck exWorld \<lparr>TownRoot = ''/town'', RigName = []\<rparr>) \<noteq> StatusError
   \<and> rigLoop exCheck exWorld ''/town'' exCutoff [''rig['', ''rig1''] ([], 0, 1)
       = rigLoop exCheck exWorld ''/town'' exCutoff [''rig1''] ([], 0, 1)
   \<and> storeLoop exCheck exWorld ''/town/rig2'' exCutoff ''rig2'' polecatLabel
         [''/town/rig2/polecats/ghost/.beads'', ''/town/rig2/polecats/delta/.beads''] ([], 0, 1)
       = storeLoop exCheck exWorld ''/town/rig2'' exCutoff ''rig2'' polecatLabel
         [''/town/rig2/polecats/delta/.beads''] ([], 0, 1)
   \<and> checkTown exCheck exWorld ''/empty'' exCutoff ([], 0, 1) = ([], 0, 1)
   \<and> Run exCheck exWorld \<lparr>TownRoot = ''/empty'', RigName = ''rig1''\<rparr> =
       \<lparr>ResultName = ''stale-attachments'', ResultStatus = StatusOK,
        Message = ''No attachments to check'', Details = [], FixHint = []\<rparr>
   \<and> ResultStatus (Run exCheck exWorld \<lparr>TownRoot = ''/town'', RigName = ''rig[''\<rparr>)
       = StatusWarning"
proof -
  have name: "Name exCheck = ''stale-attachments''"
    by (simp add: Name_def ex_defs)
  have nowhere: "discoverRigs exWorld ''/nowhere'' = Inl (Error ''cannot read town root'')"
    and town: "discoverRigs exWorld ''/town'' = Inr [''rig1'']"
    by (simp_all add: exWorld_def)
  have join: "filepath_Join exWorld [''/town'', ''.beads''] = ''/town/.beads''"
    by (simp add: exWorld_def)
  have rigFails: "snd (snd (fst (checkRig exCheck exWorld ''/town'' ''rig['' exCutoff 1))) \<noteq> None"
    by (simp add: ex_bad_rig)
  have storeFails: "snd (snd (fst (checkBeadsDirWithContext exCheck exWorld ''/town/rig2''
        ''/town/rig2/polecats/ghost/.beads'' exCutoff ''rig2''
        (polecatLabel (filepath_Base exWorld (filepath_Dir exWorld ''/town/rig2/polecats/ghost/.beads'')))
        1))) \<noteq> None"
    by (simp add: ex_ghost_store)
  have townFails: "snd (snd (fst (checkBeadsDir exCheck exWorld ''/empty''
        (filepath_Join exWorld [''/empty'', ''.beads'']) exCutoff 1))) \<noteq> None"
    by (simp add: ex_empty_town)
  have discoveryFails: "RigName \<lparr>TownRoot = ''/nowhere'', RigName = []\<rparr> = []
      \<and> discoverRigs exWorld (TownRoot \<lparr>TownRoot = ''/nowhere'', RigName = []\<rparr>)
          = Inl (Error ''cannot read town root'')"
    by (simp add: nowhere)
  note status = Run_absorbs_errors [where w = exWorld and c = exCheck
      and ctx = "\<lparr>TownRoot = ''/town'', RigName = []\<rparr>", THEN conjunct1]
  note failed = Run_absorbs_errors [where w = exWorld and c = exCheck
      and ctx = "\<lparr>TownRoot = ''/nowhere'', RigName = []\<rparr>"
      and err = "Error ''cannot read town root''", THEN conjunct2, THEN conjunct1,
      rule_format, OF discoveryFails]
  note gathered1 = Run_absorbs_errors [where w = exWorld and c = exCheck
      and ctx = "\<lparr>TownRoot = ''/empty'', RigName = ''rig1''\<rparr>" and rigs = "[''rig1'']",
      THEN conjunct2, THEN conjunct2, THEN conjunct1]
  note gathered2 = Run_absorbs_errors [where w = exWorld and c = exCheck
      and ctx = "\<lparr>TownRoot = ''/town'', RigName = ''rig[''\<rparr>" and rigs = "[''rig['']",
      THEN conjunct2, THEN conjunct2, THEN conjunct1]
  note rig = Run_absorbs_errors [where w = exWorld and c = exCheck and townRoot = "''/town''"
      and rigName = "''rig[''" and cutoff = exCutoff and n = 1 and rest = "[''rig1'']"
      and s = "[]" and k = 0,
      THEN conjunct2, THEN conjunct2, THEN conjunct2, THEN conjunct1, rule_format, OF rigFails]
  note store = Run_absorbs_errors [where w = exWorld and c = exCheck and rigPath = "''/town/rig2''"
      and beadsPath = "''/town/rig2/polecats/ghost/.beads''" and rigName = "''rig2''"
      and label = polecatLabel and cutoff = exCutoff and n = 1
      and stores = "[''/town/rig2/polecats/delta/.beads'']" and s = "[]" and k = 0,
      THEN conjunct2, THEN conjunct2, THEN conjunct2, THEN conjunct2, THEN conjunct1,
      rule_format, OF storeFails]
  note townStore = Run_absorbs_errors [where w = exWorld and c = exCheck and townRoot = "''/empty''"
      and cutoff = exCutoff and n = 1 and s = "[]" and k = 0,
      THEN conjunct2, THEN conjunct2, THEN conjunct2, THEN conjunct2, THEN conjunct2,
      rule_format, OF townFails]
  have g1: "gather exCheck exWorld \<lparr>TownRoot = ''/empty'', RigName = ''rig1''\<rparr> [''rig1'']
      = ([], 0, 1)"
    using townStore
    by (simp add: gather_def time_Now_def ex_cutoff checkRigStep_def ex_empty_town)
  have g2: "fst (gather exCheck exWorld \<lparr>TownRoot = ''/town'', RigName = ''rig[''\<rparr> [''rig[''])
      \<noteq> []"
    by (simp add: gather_def checkRigStep_def time_Now_def ex_cutoff ex_bad_rig checkTown_def join ex_town_store)
  have r1: "Run exCheck exWorld \<lparr>TownRoot = ''/empty'', RigName = ''rig1''\<rparr> =
       \<lparr>ResultName = ''stale-attachments'', ResultStatus = StatusOK,
        Message = ''No attachments to check'', Details = [], FixHint = []\<rparr>"
    using gathered1
    by (simp add: rigsToCheck_def g1 report_def name)
  have r2: "ResultStatus (Run exCheck exWorld \<lparr>TownRoot = ''/town'', RigName = ''rig[''\<rparr>)
       = StatusWarning"
    using gathered2 g2
    by (simp add: rigsToCheck_def report_status)
  show ?thesis
    using failed status rig store townStore r1 r2
    by (simp add: town name del: rigLoop.simps storeLoop.simps)
qed

subsection \<open>A named rig\<close>

text \<open>
  C9. When the context names a rig, the rigs to scan are that rig alone and the discovery
  is not consulted: \<^verbatim>\<open>Run\<close> returns the same result whatever the discovery would do, the
  result is built from what was gathered, and its status is \<^verbatim>\<open>StatusOK\<close> or \<^verbatim>\<open>StatusWarning\<close>,
  never \<^verbatim>\<open>StatusError\<close>.
\<close>

theorem named_rig_never_error:
  assumes "RigName ctx \<noteq> []"
  shows "rigsToCheck w ctx = Inr [RigName ctx]
    \<and> ResultStatus (Run c w ctx) \<noteq> StatusError
    \<and> (ResultStatus (Run c w ctx) = StatusOK \<or> ResultStatus (Run c w ctx) = StatusWarning)
    \<and> Run c (w\<lparr>discoverRigs := d\<rparr>) ctx = Run c w ctx
    \<and> Run c w ctx = report c w (fst (gather c w ctx [RigName ctx]))
                       (fst (snd (gather c w ctx [RigName ctx])))"
proof -
  have rigs: "rigsToCheck w' ctx = Inr [RigName ctx]" for w'
    using assms by (simp add: rigsToCheck_def)
  have run: "Run c w' ctx = report c w' (fst (gather c w' ctx [RigName ctx]))
                       (fst (snd (gather c w' ctx [RigName ctx])))" for w'
    by (rule Run_gathered [OF rigs]) simp
  have "ResultStatus (Run c w ctx) \<noteq> StatusError"
    using assms by (simp add: Run_status_error)
  moreover from this have "ResultStatus (Run c w ctx) = StatusOK \<or> ResultStatus (Run c w ctx) = StatusWarning"
    by (cases "ResultStatus (Run c w ctx)") simp_all
  moreover have "Run c (w\<lparr>discoverRigs := d\<rparr>) ctx = Run c w ctx"
    by (simp add: run gather_ignores_discovery report_ignores_discovery)
  ultimately show ?thesis
    using rigs run by simp
qed

text \<open>
  Under \<^verbatim>\<open>/nowhere\<close> the discovery fails, yet with \<^verbatim>\<open>rig1\<close> named the status is
  \<^verbatim>\<open>StatusOK\<close>; in the town it is \<^verbatim>\<open>StatusWarning\<close>, and the same when discovery would
  find no rig.
\<close>

theorem named_rig_never_error_witness:
  "discoverRigs exWorld ''/nowhere'' = Inl (Error ''cannot read town root'')
   \<and> ResultStatus (Run exCheck exWorld \<lparr>TownRoot = ''/nowhere'', RigName = ''rig1''\<rparr>) = StatusOK
   \<and> ResultStatus (Run exCheck exWorld \<lparr>TownRoot = ''/town'', RigName = ''rig1''\<rparr>)
       = StatusWarning
   \<and> Run exCheck exNoRigsWorld \<lparr>TownRoot = ''/town'', RigName = ''rig1''\<rparr>
       = Run exCheck exWorld \<lparr>TownRoot = ''/town'', RigName = ''rig1''\<rparr>"
proof -
  have named: "RigName \<lparr>TownRoot = root, RigName = ''rig1''\<rparr> \<noteq> []" for root
    by simp
  note nowhere = named_rig_never_error [where w = exWorld and c = exCheck,
    OF named [of "''/nowhere''"]]
  note town = named_rig_never_error [where w = exWorld and c = exCheck
    and d = "\<lambda>root. Inr []", OF named [of "''/town''"]]
  have "ResultStatus (Run exCheck exWorld \<lparr>TownRoot = ''/nowhere'', RigName = ''rig1''\<rparr>) = StatusOK"
    using nowhere by (simp add: ex_gather_nowhere report_status)
  moreover have "ResultStatus (Run exCheck exWorld \<lparr>TownRoot = ''/town'', RigName = ''rig1''\<rparr>)
       = StatusWarning"
    using town by (simp add: ex_gather_rig1 report_status)
  moreover have "Run exCheck exNoRigsWorld \<lparr>TownRoot = ''/town'', RigName = ''rig1''\<rparr>
       = Run exCheck exWorld \<lparr>TownRoot = ''/town'', RigName = ''rig1''\<rparr>"
    using town by (simp add: exNoRigsWorld_def)
  moreover have "discoverRigs exWorld ''/nowhere'' = Inl (Error ''cannot read town root'')"
    by (simp add: exWorld_def)
  ultimately show ?thesis by simp
qed

subsection \<open>No rig\<close>

text \<open>
  C10. When no rig is named and the discovery returns no rig, \<^verbatim>\<open>Run\<close> returns \<^verbatim>\<open>StatusOK\<close>
  with the message \<^verbatim>\<open>No rigs configured\<close>, no detail and no hint. The town store is not
  scanned: the result is the same whatever the stores hold, so the anchors of the town
  give no finding and add nothing to a count.
\<close>

theorem no_rigs_configured:
  assumes "RigName ctx = []" and "discoverRigs w (TownRoot ctx) = Inr []"
  shows "Run c w ctx =
           \<lparr>ResultName = Name c, ResultStatus = StatusOK, Message = ''No rigs configured'',
            Details = [], FixHint = []\<rparr>
    \<and> Run c (w\<lparr>beads_List := listing, beads_Show := fetch, ParseAttachmentFields := parsed\<rparr>) ctx =
           \<lparr>ResultName = Name c, ResultStatus = StatusOK, Message = ''No rigs configured'',
            Details = [], FixHint = []\<rparr>"
  using assms by (simp add: Run_def rigsToCheck_def)

text \<open>
  In the town where discovery finds no rig, the town store holds a stale attachment, which
  a scan of it finds; the run does not report it.
\<close>

theorem no_rigs_configured_witness:
  "discoverRigs exNoRigsWorld ''/town'' = Inr []
   \<and> checkBeadsDir exCheck exNoRigsWorld ''/town'' ''/town/.beads'' exCutoff 1 =
       (([\<lparr>Rig = [], PinnedBeadID = ''pin-8'', PinnedTitle = ''mayor hook'', StaleAssignee = [],
           MoleculeID = ''mol-old'', MoleculeTitle = ''town census'', LastUpdated = 0,
           StaleDuration = maxDuration\<rparr>], 1, None), 2)
   \<and> Run exCheck exNoRigsWorld \<lparr>TownRoot = ''/town'', RigName = []\<rparr> =
       \<lparr>ResultName = ''stale-attachments'', ResultStatus = StatusOK,
        Message = ''No rigs configured'', Details = [], FixHint = []\<rparr>"
proof -
  have none: "RigName \<lparr>TownRoot = ''/town'', RigName = []\<rparr> = []"
    and found: "discoverRigs exNoRigsWorld (TownRoot \<lparr>TownRoot = ''/town'', RigName = []\<rparr>) = Inr []"
    by (simp_all add: exNoRigsWorld_def)
  have store: "checkBeadsDir exCheck exNoRigsWorld ''/town'' ''/town/.beads'' exCutoff n
      = checkBeadsDir exCheck exWorld ''/town'' ''/town/.beads'' exCutoff n" for n
    by (simp add: exNoRigsWorld_def checkBeadsDir_def store_ignores_discovery)
  have name: "Name exCheck = ''stale-attachments''"
    by (simp add: Name_def ex_defs)
  from no_rigs_configured [where c = exCheck, OF none found, THEN conjunct1] found
  show ?thesis
    by (simp add: store ex_town_store name)
qed

subsection \<open>The report\<close>

text \<open>
  C5. The result of a run that has a rig to scan is built from the findings and the count
  it gathered. With a finding, the status is \<^verbatim>\<open>StatusWarning\<close>, the message states the number
  of findings and the threshold, there is one detail line for each finding, in their order,
  and the hint is fixed. A detail line is the location (\<^verbatim>\<open>town\<close> when the rig of the finding
  is empty), a colon, the title of the anchor, the separator \<open>arrow\<close>, the title of the
  molecule, the assignee in parentheses unless it is empty, and the duration after
  \<^verbatim>\<open>stale for\<close>. With no finding, the status is \<^verbatim>\<open>StatusOK\<close> and the message is
  \<^verbatim>\<open>No attachments to check\<close> when the count is 0 and \<^verbatim>\<open>Checked N attachment(s), none stale\<close>
  otherwise. All of this is as the claim has it but for the separator: the format string
  of the source holds the eight bytes \<open>arrow\<close> where the claim has a rightwards arrow, so
  the detail lines of the code are not those of the claim.
\<close>

theorem Run_report:
  "(rigsToCheck w ctx = Inr rigs \<and> rigs \<noteq> []
      \<and> gather c w ctx rigs = (staleAttachments, checkedCount, n) \<longrightarrow>
        Run c w ctx = report c w staleAttachments checkedCount)
   \<and> (staleAttachments \<noteq> [] \<longrightarrow>
        report c w staleAttachments checkedCount =
          \<lparr>ResultName = Name c,
           ResultStatus = StatusWarning,
           Message = fmt_d (length staleAttachments)
                       @ '' stale attachment(s) found (no activity for >''
                       @ formatDuration w (Threshold c) @ '')'',
           Details = map (detailLine w) staleAttachments,
           FixHint = ''Check if polecats are stuck or crashed. Use 'gt witness nudge <polecat>' or 'gt polecat kill <name>' if needed''\<rparr>)
   \<and> detailLine w sa =
         (if Rig sa = [] then ''town'' else Rig sa) @ '': '' @ PinnedTitle sa
           @ '' '' @ arrow @ '' '' @ MoleculeTitle sa
           @ (if StaleAssignee sa = [] then [] else '' (assignee: '' @ StaleAssignee sa @ '')'')
           @ '' (stale for '' @ formatDuration w (StaleDuration sa) @ '')''
   \<and> (staleAttachments = [] \<and> checkedCount = 0 \<longrightarrow>
        report c w staleAttachments checkedCount =
          \<lparr>ResultName = Name c, ResultStatus = StatusOK, Message = ''No attachments to check'',
           Details = [], FixHint = []\<rparr>)
   \<and> (staleAttachments = [] \<and> 0 < checkedCount \<longrightarrow>
        report c w staleAttachments checkedCount =
          \<lparr>ResultName = Name c, ResultStatus = StatusOK,
           Message = ''Checked '' @ fmt_d checkedCount @ '' attachment(s), none stale'',
           Details = [], FixHint = []\<rparr>)
   \<and> arrow \<noteq> rightwardsArrow"
proof (intro conjI impI)
  assume "rigsToCheck w ctx = Inr rigs \<and> rigs \<noteq> []
      \<and> gather c w ctx rigs = (staleAttachments, checkedCount, n)"
  then show "Run c w ctx = report c w staleAttachments checkedCount"
    by (simp add: Run_gathered)
next
  assume "staleAttachments \<noteq> []"
  then show "report c w staleAttachments checkedCount =
          \<lparr>ResultName = Name c,
           ResultStatus = StatusWarning,
           Message = fmt_d (length staleAttachments)
                       @ '' stale attachment(s) found (no activity for >''
                       @ formatDuration w (Threshold c) @ '')'',
           Details = map (detailLine w) staleAttachments,
           FixHint = ''Check if polecats are stuck or crashed. Use 'gt witness nudge <polecat>' or 'gt polecat kill <name>' if needed''\<rparr>"
    by (simp add: report_def fixHint_def)
next
  show "detailLine w sa =
         (if Rig sa = [] then ''town'' else Rig sa) @ '': '' @ PinnedTitle sa
           @ '' '' @ arrow @ '' '' @ MoleculeTitle sa
           @ (if StaleAssignee sa = [] then [] else '' (assignee: '' @ StaleAssignee sa @ '')'')
           @ '' (stale for '' @ formatDuration w (StaleDuration sa) @ '')''"
    by (simp add: detailLine_def)
next
  assume "staleAttachments = [] \<and> checkedCount = 0"
  then show "report c w staleAttachments checkedCount =
          \<lparr>ResultName = Name c, ResultStatus = StatusOK, Message = ''No attachments to check'',
           Details = [], FixHint = []\<rparr>"
    by (simp add: report_def)
next
  assume "staleAttachments = [] \<and> 0 < checkedCount"
  then show "report c w staleAttachments checkedCount =
          \<lparr>ResultName = Name c, ResultStatus = StatusOK,
           Message = ''Checked '' @ fmt_d checkedCount @ '' attachment(s), none stale'',
           Details = [], FixHint = []\<rparr>"
    by (simp add: report_def)
next
  show "arrow \<noteq> rightwardsArrow"
    by (simp add: arrow_def rightwardsArrow_def)
qed

text \<open>
  The run over the example town reports three findings, the third from the town store,
  with no assignee; each line shows the eight bytes. Where nothing can be listed the
  message is \<^verbatim>\<open>No attachments to check\<close>; in the town whose own store pins nothing, the rig
  \<^verbatim>\<open>rig2\<close> has one attachment, which is fresh.
\<close>

theorem Run_report_witness:
  "Run exCheck exWorld \<lparr>TownRoot = ''/town'', RigName = []\<rparr> =
     \<lparr>ResultName = ''stale-attachments'', ResultStatus = StatusWarning,
      Message = ''3 stale attachment(s) found (no activity for >3600s)'',
      Details =
        [''rig1: alpha hook '' @ [CHR 0xC3, CHR 0xA2, CHR 0xE2, CHR 0x80, CHR 0xA0, CHR 0xE2, CHR 0x80, CHR 0x99]
           @ '' fix parser (assignee: rig1/alpha) (stale for 7200s)'',
         ''rig1: alpha lost '' @ [CHR 0xC3, CHR 0xA2, CHR 0xE2, CHR 0x80, CHR 0xA0, CHR 0xE2, CHR 0x80, CHR 0x99]
           @ '' (molecule not found) (assignee: rig1/alpha) (stale for 7200s)'',
         ''town: mayor hook '' @ [CHR 0xC3, CHR 0xA2, CHR 0xE2, CHR 0x80, CHR 0xA0, CHR 0xE2, CHR 0x80, CHR 0x99]
           @ '' town census (stale for 9223372036s)''],
      FixHint = ''Check if polecats are stuck or crashed. Use 'gt witness nudge <polecat>' or 'gt polecat kill <name>' if needed''\<rparr>
   \<and> Run exCheck exWorld \<lparr>TownRoot = ''/nowhere'', RigName = ''rig1''\<rparr> =
       \<lparr>ResultName = ''stale-attachments'', ResultStatus = StatusOK,
        Message = ''No attachments to check'', Details = [], FixHint = []\<rparr>
   \<and> Run exCheck exQuietWorld \<lparr>TownRoot = ''/town'', RigName = ''rig2''\<rparr> =
       \<lparr>ResultName = ''stale-attachments'', ResultStatus = StatusOK,
        Message = ''Checked 1 attachment(s), none stale'', Details = [], FixHint = []\<rparr>"
proof -
  have name: "Name exCheck = ''stale-attachments''"
    by (simp add: Name_def ex_defs)
  have threshold: "formatDuration exWorld (Threshold exCheck) = ''3600s''"
    by (simp add: ex_defs fmt_d.simps)
  have formats: "formatDuration exWorld 7200000000001 = ''7200s''"
    "formatDuration exWorld 7200000000002 = ''7200s''"
    "formatDuration exWorld 9223372036854775807 = ''9223372036s''"
    by (simp_all add: ex_defs fmt_d.simps)
  have counts: "fmt_d (Suc (Suc (Suc 0))) = ''3''" "fmt_d (Suc 0) = ''1''"
    by (simp_all add: fmt_d.simps [of "Suc (Suc (Suc 0))"] fmt_d.simps [of "Suc 0"])
  have rigs: "rigsToCheck exWorld \<lparr>TownRoot = ''/town'', RigName = []\<rparr> = Inr [''rig1'']"
    "rigsToCheck exWorld \<lparr>TownRoot = ''/nowhere'', RigName = ''rig1''\<rparr> = Inr [''rig1'']"
    "rigsToCheck exQuietWorld \<lparr>TownRoot = ''/town'', RigName = ''rig2''\<rparr> = Inr [''rig2'']"
    by (simp_all add: rigsToCheck_def exWorld_def)
  note town = Run_report [where w = exWorld and c = exCheck
      and ctx = "\<lparr>TownRoot = ''/town'', RigName = []\<rparr>" and rigs = "[''rig1'']",
      unfolded ex_gather_town rigs]
  note nowhere = Run_report [where w = exWorld and c = exCheck
      and ctx = "\<lparr>TownRoot = ''/nowhere'', RigName = ''rig1''\<rparr>" and rigs = "[''rig1'']",
      unfolded ex_gather_nowhere rigs]
  note quiet = Run_report [where w = exQuietWorld and c = exCheck
      and ctx = "\<lparr>TownRoot = ''/town'', RigName = ''rig2''\<rparr>" and rigs = "[''rig2'']",
      unfolded ex_gather_quiet rigs]
  have "Run exCheck exWorld \<lparr>TownRoot = ''/nowhere'', RigName = ''rig1''\<rparr> =
       \<lparr>ResultName = ''stale-attachments'', ResultStatus = StatusOK,
        Message = ''No attachments to check'', Details = [], FixHint = []\<rparr>"
    using nowhere [where staleAttachments = "[]" and checkedCount = 0 and n = 1]
    by (simp add: name)
  moreover have "Run exCheck exQuietWorld \<lparr>TownRoot = ''/town'', RigName = ''rig2''\<rparr> =
       \<lparr>ResultName = ''stale-attachments'', ResultStatus = StatusOK,
        Message = ''Checked 1 attachment(s), none stale'', Details = [], FixHint = []\<rparr>"
    using quiet [where staleAttachments = "[]" and checkedCount = 1 and n = 1]
    by (simp add: name counts)
  moreover have "Run exCheck exWorld \<lparr>TownRoot = ''/town'', RigName = []\<rparr> =
     \<lparr>ResultName = ''stale-attachments'', ResultStatus = StatusWarning,
      Message = ''3 stale attachment(s) found (no activity for >3600s)'',
      Details =
        [''rig1: alpha hook '' @ [CHR 0xC3, CHR 0xA2, CHR 0xE2, CHR 0x80, CHR 0xA0, CHR 0xE2, CHR 0x80, CHR 0x99]
           @ '' fix parser (assignee: rig1/alpha) (stale for 7200s)'',
         ''rig1: alpha lost '' @ [CHR 0xC3, CHR 0xA2, CHR 0xE2, CHR 0x80, CHR 0xA0, CHR 0xE2, CHR 0x80, CHR 0x99]
           @ '' (molecule not found) (assignee: rig1/alpha) (stale for 7200s)'',
         ''town: mayor hook '' @ [CHR 0xC3, CHR 0xA2, CHR 0xE2, CHR 0x80, CHR 0xA0, CHR 0xE2, CHR 0x80, CHR 0x99]
           @ '' town census (stale for 9223372036s)''],
      FixHint = ''Check if polecats are stuck or crashed. Use 'gt witness nudge <polecat>' or 'gt polecat kill <name>' if needed''\<rparr>"
    using town [where n = 4 and checkedCount = 6
        and staleAttachments = "fst (gather exCheck exWorld \<lparr>TownRoot = ''/town'', RigName = []\<rparr> [''rig1''])"]
    by (simp add: ex_gather_town name threshold formats counts detailLine_def arrow_def)
  ultimately show ?thesis by simp
qed

end
